theory Spec2Isabelle
  imports Main "HOL-Library.AList"
begin

section \<open>Python values and the built-ins the code calls\<close>

text \<open>
  The values that parameters, defaults and namespaces carry: \<open>None\<close>, booleans,
  integers, strings, lists and dictionaries (in insertion order), and the classes of
  validate.py: the markers \<open>Error\<close> (a subclass of \<open>str\<close>) and \<open>Unresolved\<close> (a
  dataclass with the one field \<open>value\<close>), and \<open>SubstitutionNamespace\<close> (a subclass of
  \<open>dict\<close>; the constructor \<open>Namespace\<close> holds its entries). A character stands for a
  code point below 256. Floats, tuples and OmegaConf containers are outside the model.
\<close>

datatype pyval =
    PyNone
  | PyBool bool
  | PyInt int
  | PyStr string
  | Error string
  | PyList "pyval list"
  | PyDict "(string \<times> pyval) list"
  | Unresolved string
  | Namespace "(string \<times> pyval) list"

type_synonym pydict = "(string \<times> pyval) list"

text \<open>
  Exceptions, by class. \<open>PyTypeError\<close> is a \<open>TypeError\<close> raised by the interpreter or a
  library (its message depends on the Python version); \<open>TypeError\<close> carries the message
  the repository gives it. \<open>Unmodelled\<close> is no Python exception: it marks a call that
  leaves the fragment of Python described here, about which the model says nothing.
\<close>

datatype exc =
    ParameterValidationError string
  | SchemaError string
  | RuntimeError string
  | TypeError string
  | KeyError string
  | AttributeError string
  | ValueError string
  | ConfigAttributeError string
  | PyTypeError
  | OSError
  | Unmodelled

text \<open>Sequencing of calls that may raise.\<close>

definition and_then :: "exc + 'a \<Rightarrow> ('a \<Rightarrow> exc + 'b) \<Rightarrow> exc + 'b" where
  "and_then r f = (case r of Inl e \<Rightarrow> Inl e | Inr v \<Rightarrow> f v)"

text \<open>A \<open>for\<close> loop whose body may raise, and a list comprehension whose element may raise.\<close>

fun for_each :: "('s \<Rightarrow> 'a \<Rightarrow> exc + 's) \<Rightarrow> 's \<Rightarrow> 'a list \<Rightarrow> exc + 's" where
  "for_each body s [] = Inr s"
| "for_each body s (x # xs) = and_then (body s x) (\<lambda>s'. for_each body s' xs)"

fun map_exc :: "('a \<Rightarrow> exc + 'b) \<Rightarrow> 'a list \<Rightarrow> exc + 'b list" where
  "map_exc f [] = Inr []"
| "map_exc f (x # xs) =
     and_then (f x) (\<lambda>y. and_then (map_exc f xs) (\<lambda>ys. Inr (y # ys)))"

text \<open>\<open>d.get(k)\<close> and \<open>k in d\<close>; \<open>d[k] = v\<close> is \<open>AList.update\<close>, \<open>del d[k]\<close> is \<open>AList.delete\<close>.\<close>

definition py_get :: "pydict \<Rightarrow> string \<Rightarrow> pyval" where
  "py_get d k = (case map_of d k of None \<Rightarrow> PyNone | Some v \<Rightarrow> v)"

definition py_in :: "string \<Rightarrow> (string \<times> 'b) list \<Rightarrow> bool" where
  "py_in k d = (map_of d k \<noteq> None)"

text \<open>\<open>str\<close> of an integer.\<close>

definition digit_char :: "nat \<Rightarrow> char" where
  "digit_char n = ''0123456789abcdef'' ! n"

fun str_nat :: "nat \<Rightarrow> string" where
  "str_nat n =
     (if n < 10 then [digit_char n] else str_nat (n div 10) @ [digit_char (n mod 10)])"

declare str_nat.simps [simp del]

definition str_int :: "int \<Rightarrow> string" where
  "str_int i = (if i < 0 then CHR ''-'' # str_nat (nat (- i)) else str_nat (nat i))"

text \<open>
  \<open>repr\<close> of a string: single quotes, unless the text has a single quote and no double
  quote; the quote, the backslash and the unprintable characters escaped.
\<close>

definition printable :: "char \<Rightarrow> bool" where
  "printable c =
     (let n = (of_char c :: nat) in \<not> (n < 32 \<or> (127 \<le> n \<and> n \<le> 160) \<or> n = 173))"

definition repr_char :: "char \<Rightarrow> char \<Rightarrow> string" where
  "repr_char q c =
     (if c = q \<or> c = CHR 0x5C then [CHR 0x5C, c]
      else if c = CHR 0x0A then [CHR 0x5C, CHR ''n'']
      else if c = CHR 0x0D then [CHR 0x5C, CHR ''r'']
      else if c = CHR 0x09 then [CHR 0x5C, CHR ''t'']
      else if \<not> printable c
        then [CHR 0x5C, CHR ''x'', digit_char (of_char c div 16), digit_char (of_char c mod 16)]
      else [c])"

definition repr_str :: "string \<Rightarrow> string" where
  "repr_str s =
     (let q = (if CHR 0x27 \<in> set s \<and> CHR 0x22 \<notin> set s then CHR 0x22 else CHR 0x27)
      in q # concat (map (repr_char q) s) @ [q])"

text \<open>\<open>sep.join(values)\<close>.\<close>

fun py_join :: "string \<Rightarrow> string list \<Rightarrow> string" where
  "py_join sep [] = []"
| "py_join sep [x] = x"
| "py_join sep (x # y # ys) = x @ sep @ py_join sep (y # ys)"

fun py_repr :: "pyval \<Rightarrow> string" where
  "py_repr PyNone = ''None''"
| "py_repr (PyBool b) = (if b then ''True'' else ''False'')"
| "py_repr (PyInt i) = str_int i"
| "py_repr (PyStr s) = repr_str s"
| "py_repr (Error s) = repr_str s"
| "py_repr (PyList xs) = ''['' @ py_join '', '' (map py_repr xs) @ '']''"
| "py_repr (PyDict d) =
     ''{'' @ py_join '', '' (map (\<lambda>(k, v). repr_str k @ '': '' @ py_repr v) d) @ ''}''"
| "py_repr (Unresolved s) = ''Unresolved(value='' @ repr_str s @ '')''"
| "py_repr (Namespace d) =
     ''{'' @ py_join '', '' (map (\<lambda>(k, v). repr_str k @ '': '' @ py_repr v) d) @ ''}''"

text \<open>
  \<open>str(v)\<close>, which is also what an f-string and a replacement field without format
  specification put in the text. \<open>Unresolved.__str__\<close> is the one of validate.py.
\<close>

fun py_str :: "pyval \<Rightarrow> string" where
  "py_str (PyStr s) = s"
| "py_str (Error s) = s"
| "py_str (Unresolved s) = ''Unresolved('' @ s @ '')''"
| "py_str v = py_repr v"

text \<open>The truth value of an object, as \<open>if v\<close>, \<open>not v\<close> and \<open>v or w\<close> read it.\<close>

fun truthy :: "pyval \<Rightarrow> bool" where
  "truthy PyNone = False"
| "truthy (PyBool b) = b"
| "truthy (PyInt i) = (i \<noteq> 0)"
| "truthy (PyStr s) = (s \<noteq> [])"
| "truthy (Error s) = (s \<noteq> [])"
| "truthy (PyList xs) = (xs \<noteq> [])"
| "truthy (PyDict d) = (d \<noteq> [])"
| "truthy (Unresolved s) = True"
| "truthy (Namespace d) = (d \<noteq> [])"

text \<open>
  \<open>v == w\<close>: a boolean equals the integer 0 or 1, an \<open>Error\<close> equals the string of the
  same text, lists compare element by element, dictionaries (namespaces among them) key
  by key.
\<close>

fun py_eq :: "pyval \<Rightarrow> pyval \<Rightarrow> bool" where
  "py_eq PyNone PyNone = True"
| "py_eq (PyBool a) (PyBool b) = (a = b)"
| "py_eq (PyBool a) (PyInt j) = ((if a then 1 else 0) = j)"
| "py_eq (PyInt i) (PyBool b) = (i = (if b then 1 else 0))"
| "py_eq (PyInt i) (PyInt j) = (i = j)"
| "py_eq (PyStr s) (PyStr t) = (s = t)"
| "py_eq (PyStr s) (Error t) = (s = t)"
| "py_eq (Error s) (PyStr t) = (s = t)"
| "py_eq (Error s) (Error t) = (s = t)"
| "py_eq (PyList xs) (PyList ys) = list_all2 py_eq xs ys"
| "py_eq (PyDict d) (PyDict e) =
     (length d = length e \<and>
      list_all (\<lambda>(k, v). case map_of e k of None \<Rightarrow> False | Some w \<Rightarrow> py_eq v w) d)"
| "py_eq (PyDict d) (Namespace e) =
     (length d = length e \<and>
      list_all (\<lambda>(k, v). case map_of e k of None \<Rightarrow> False | Some w \<Rightarrow> py_eq v w) d)"
| "py_eq (Namespace d) (PyDict e) =
     (length d = length e \<and>
      list_all (\<lambda>(k, v). case map_of e k of None \<Rightarrow> False | Some w \<Rightarrow> py_eq v w) d)"
| "py_eq (Namespace d) (Namespace e) =
     (length d = length e \<and>
      list_all (\<lambda>(k, v). case map_of e k of None \<Rightarrow> False | Some w \<Rightarrow> py_eq v w) d)"
| "py_eq (Unresolved s) (Unresolved t) = (s = t)"
| "py_eq _ _ = False"

text \<open>\<open>v in values\<close> for a list \<open>values\<close>.\<close>

definition py_in_list :: "pyval \<Rightarrow> pyval list \<Rightarrow> bool" where
  "py_in_list v values = list_ex (py_eq v) values"

text \<open>The name that \<open>type(v)\<close> prints.\<close>

fun type_repr :: "pyval \<Rightarrow> string" where
  "type_repr PyNone = ''<class 'NoneType'>''"
| "type_repr (PyBool b) = ''<class 'bool'>''"
| "type_repr (PyInt i) = ''<class 'int'>''"
| "type_repr (PyStr s) = ''<class 'str'>''"
| "type_repr (Error s) = ''<class 'scabha.validate.Error'>''"
| "type_repr (PyList xs) = ''<class 'list'>''"
| "type_repr (PyDict d) = ''<class 'dict'>''"
| "type_repr (Unresolved s) = ''<class 'scabha.validate.Unresolved'>''"
| "type_repr (Namespace d) = ''<class 'scabha.validate.SubstitutionNamespace'>''"

text \<open>
  \<open>s.split(sep)\<close> for a separator that is not empty: \<open>skip\<close> counts the characters of a
  matched separator still to pass over, \<open>cur\<close> holds the current piece, reversed.
\<close>

fun split_scan :: "string \<Rightarrow> nat \<Rightarrow> string \<Rightarrow> string \<Rightarrow> string list" where
  "split_scan sep skip cur [] = [rev cur]"
| "split_scan sep (Suc skip) cur (c # cs) = split_scan sep skip cur cs"
| "split_scan sep 0 cur (c # cs) =
     (if take (length sep) (c # cs) = sep then rev cur # split_scan sep (length sep - 1) [] cs
      else split_scan sep 0 (c # cur) cs)"

definition py_split :: "string \<Rightarrow> string \<Rightarrow> string list" where
  "py_split s sep = split_scan sep 0 [] s"

text \<open>\<open>os.path.dirname\<close> of posixpath: the text up to the last slash, trailing slashes cut
  unless the head is made of slashes only.\<close>

definition dirname :: "string \<Rightarrow> string" where
  "dirname p =
     (let head = rev (dropWhile (\<lambda>c. c \<noteq> CHR ''/'') (rev p))
      in if head \<noteq> [] \<and> \<not> list_all (\<lambda>c. c = CHR ''/'') head
         then rev (dropWhile (\<lambda>c. c = CHR ''/'') (rev head))
         else head)"

subsection \<open>\<open>str.format\<close>\<close>

text \<open>
  \<open>getattr\<close> on the objects a replacement field can reach. The \<open>__getattr__\<close> of a
  \<open>SubstitutionNamespace\<close> looks the name up among the keys and raises
  \<open>AttributeError(name)\<close> otherwise (no namespace of validate.py is forgiving). Python
  calls \<open>__getattr__\<close> only for names that are not attributes of the object itself: the
  methods of \<open>dict\<close> and names with a leading underscore are left unmodelled, and so
  are the attributes of every other object.
\<close>

definition dict_attributes :: "string list" where
  "dict_attributes =
     [''clear'', ''copy'', ''fromkeys'', ''get'', ''items'', ''keys'', ''pop'', ''popitem'',
      ''setdefault'', ''update'', ''values'']"

fun py_getattr :: "pyval \<Rightarrow> string \<Rightarrow> exc + pyval" where
  "py_getattr (Namespace d) name =
     (if name = [] \<or> hd name = CHR ''_'' \<or> name \<in> set dict_attributes then Inl Unmodelled
      else case map_of d name of
             Some v \<Rightarrow> Inr v
           | None \<Rightarrow> Inl (AttributeError name))"
| "py_getattr v name = Inl Unmodelled"

fun getattr_chain :: "pyval \<Rightarrow> string list \<Rightarrow> exc + pyval" where
  "getattr_chain v [] = Inr v"
| "getattr_chain v (a # as) = and_then (py_getattr v a) (\<lambda>w. getattr_chain w as)"

fun split_char :: "char \<Rightarrow> string \<Rightarrow> string list" where
  "split_char c [] = [[]]"
| "split_char c (x # xs) =
     (if x = c then [] # split_char c xs
      else case split_char c xs of
             p # ps \<Rightarrow> (x # p) # ps
           | [] \<Rightarrow> [[x]])"

definition is_digit :: "char \<Rightarrow> bool" where
  "is_digit c = (c \<in> set ''0123456789'')"

definition digit_val :: "char \<Rightarrow> nat" where
  "digit_val c = of_char c - 48"

text \<open>
  A replacement field \<open>first.attr.attr\<close>: \<open>first\<close> is an index into the positional
  arguments when it is a numeral, a keyword otherwise (\<open>KeyError\<close> when absent). A field
  without a name (automatic numbering) and an index out of range are unmodelled.
\<close>

definition field_object :: "pyval list \<Rightarrow> pydict \<Rightarrow> string \<Rightarrow> exc + pyval" where
  "field_object args kwargs first =
     (if first = [] then Inl Unmodelled
      else if list_all is_digit first then
        (let i = foldl (\<lambda>n c. 10 * n + digit_val c) 0 first
         in if i < length args then Inr (args ! i) else Inl Unmodelled)
      else case map_of kwargs first of
             None \<Rightarrow> Inl (KeyError first)
           | Some v \<Rightarrow> Inr v)"

definition render_field :: "pyval list \<Rightarrow> pydict \<Rightarrow> string \<Rightarrow> exc + string" where
  "render_field args kwargs field =
     (case split_char CHR ''.'' field of
        [] \<Rightarrow> Inl Unmodelled
      | first # attrs \<Rightarrow>
          and_then (field_object args kwargs first) (\<lambda>v.
          and_then (getattr_chain v attrs) (\<lambda>w. Inr (py_str w))))"

text \<open>
  The scan of the format string, left to right as Python renders it: text, the doubled
  braces, and fields, with the field under way (reversed) in the third argument. A
  field with a conversion, a format specification, an index or a nested brace is
  unmodelled.
\<close>

fun format_scan :: "pyval list \<Rightarrow> pydict \<Rightarrow> string option \<Rightarrow> string \<Rightarrow> exc + string" where
  "format_scan args kwargs None [] = Inr []"
| "format_scan args kwargs None [c] =
     (if c = CHR ''{'' then Inl (ValueError ''Single '{' encountered in format string'')
      else if c = CHR ''}'' then Inl (ValueError ''Single '}' encountered in format string'')
      else Inr [c])"
| "format_scan args kwargs None (c # d # cs) =
     (if c = CHR ''{'' then
        (if d = CHR ''{''
         then and_then (format_scan args kwargs None cs) (\<lambda>t. Inr (c # t))
         else format_scan args kwargs (Some []) (d # cs))
      else if c = CHR ''}'' then
        (if d = CHR ''}''
         then and_then (format_scan args kwargs None cs) (\<lambda>t. Inr (c # t))
         else Inl (ValueError ''Single '}' encountered in format string''))
      else and_then (format_scan args kwargs None (d # cs)) (\<lambda>t. Inr (c # t)))"
| "format_scan args kwargs (Some f) [] =
     Inl (ValueError ''expected '}' before end of string'')"
| "format_scan args kwargs (Some f) (c # cs) =
     (if c = CHR ''}'' then
        and_then (render_field args kwargs (rev f)) (\<lambda>s.
        and_then (format_scan args kwargs None cs) (\<lambda>t. Inr (s @ t)))
      else if c \<in> set ''{[!:'' then Inl Unmodelled
      else format_scan args kwargs (Some (c # f)) cs)"

text \<open>\<open>fmt.format(*args, **kwargs)\<close>.\<close>

definition py_format :: "string \<Rightarrow> pyval list \<Rightarrow> pydict \<Rightarrow> exc + string" where
  "py_format fmt args kwargs = format_scan args kwargs None fmt"

text \<open>\<open>str(exc)\<close> for the exceptions that \<open>str.format\<close> raises here.\<close>

fun exc_text :: "exc \<Rightarrow> string option" where
  "exc_text (KeyError k) = Some (repr_str k)"
| "exc_text (AttributeError n) = Some n"
| "exc_text (ValueError m) = Some m"
| "exc_text e = None"


section \<open>validate.py\<close>

text \<open>
  \<open>SubstitutionNamespace(**kw)\<close>. The constructor takes \<open>self\<close> as its first parameter
  and the entries as keywords, so that an entry named \<open>self\<close> is a \<open>TypeError\<close>.
  \<open>_add_\<close> turns a dictionary into a namespace of its own and then assigns
  \<open>v._forgiving_ = forgiving\<close>; the class overrides \<open>__setattr__\<close> to store an entry, so
  the nested namespace receives the key \<open>_forgiving_\<close> with the value \<open>False\<close>.
\<close>

fun SubstitutionNamespace :: "pydict \<Rightarrow> exc + pydict"
  and ns_update :: "pydict \<Rightarrow> pydict \<Rightarrow> exc + pydict"
  and ns_add :: "pydict \<Rightarrow> string \<Rightarrow> pyval \<Rightarrow> exc + pydict" where
  "SubstitutionNamespace kw =
     (if py_in ''self'' kw then Inl PyTypeError else ns_update [] kw)"
| "ns_update ns [] = Inr ns"
| "ns_update ns ((name, v) # kw) = and_then (ns_add ns name v) (\<lambda>ns'. ns_update ns' kw)"
| "ns_add ns k (PyDict d) =
     and_then (SubstitutionNamespace d) (\<lambda>v.
       Inr (AList.update k (Namespace (AList.update ''_forgiving_'' (PyBool False) v)) ns))"
| "ns_add ns k v = Inr (AList.update k v ns)"

text \<open>
  The rendering policies of cargo.py. Every field is read with \<open>is not None\<close>, so each
  is optional here; the dataclass gives \<open>skip\<close> the default \<open>False\<close> and
  \<open>skip_implicits\<close> the default \<open>True\<close>, and \<open>None\<close> to the others.
\<close>

record ParameterPolicies =
  positional :: "bool option"
  positional_head :: "bool option"
  repeat :: "string option"
  prefix :: "string option"
  skip :: "bool option"
  skip_implicits :: "bool option"
  split :: "string option"
  format :: "string option"
  format_list :: "string list option"

text \<open>
  A schema entry, with the fields that the two modules read. \<open>validate_parameters\<close>
  reads \<open>schema.default\<close> and \<open>schema.mkdir\<close> (\<open>schema_default\<close> here; \<open>param_alias\<close>
  is the field \<open>alias\<close>); the dataclass \<open>Parameter\<close> of cargo.py declares neither, they are fields of
  the entry as \<open>validate_parameters\<close> receives it. An empty \<open>choices\<close> stands for the
  empty tuple and for \<open>None\<close>.
\<close>

record Parameter =
  dtype :: string
  implicit :: "string option"
  required :: bool
  choices :: "pyval list"
  param_alias :: "string option"
  policies :: ParameterPolicies
  schema_default :: pyval
  mkdir :: bool

text \<open>
  What \<open>eval(schema.dtype, globals())\<close> yields: the types that the code tells apart, and
  \<open>T_other\<close> for any other type object.
\<close>

datatype pytype =
    T_str | T_int | T_bool | T_File | T_Directory | T_MS
  | T_List pytype
  | T_other string

text \<open>
  The outcome of instantiating the pydantic dataclass \<open>pcls\<close> with the values and
  reading it back with \<open>asdict\<close>: the validated values in field order, a
  \<open>pydantic.ValidationError\<close> with the \<open>loc\<close> and \<open>msg\<close> of each error, or another
  exception.
\<close>

datatype loc_item = LocStr string | LocInt int

datatype validation =
    Validated pydict
  | ValidationError "(loc_item list \<times> string) list"
  | Crash exc

text \<open>
  The libraries and the file system, as the code calls them: \<open>eval\<close> of a dtype
  (\<open>None\<close> when it raises), \<open>yaml.safe_load\<close> (the list it returns, \<open>None\<close> when it
  returns anything else or raises), \<open>sorted(glob.glob(pattern))\<close>, \<open>os.path.isfile\<close>,
  \<open>os.path.isdir\<close>, \<open>os.makedirs(path, exist_ok=True)\<close>, and \<open>make_pcls\<close>, which is
  \<open>dataclasses.make_dataclass("Parameters", fields)\<close> wrapped by
  \<open>pydantic.dataclasses.dataclass\<close>: an exception, or the class, a function of the
  keyword arguments. \<open>'fs\<close> is the state of the file system.
\<close>

record 'fs env =
  eval_dtype :: "string \<Rightarrow> pytype option"
  safe_load_list :: "string \<Rightarrow> pyval list option"
  glob :: "'fs \<Rightarrow> string \<Rightarrow> string list"
  isfile :: "'fs \<Rightarrow> pyval \<Rightarrow> exc + bool"
  isdir :: "'fs \<Rightarrow> pyval \<Rightarrow> exc + bool"
  makedirs :: "'fs \<Rightarrow> string \<Rightarrow> exc + 'fs"
  make_pcls :: "(string \<times> pytype) list \<Rightarrow> exc + (pydict \<Rightarrow> validation)"

text \<open>The keyword arguments of \<open>validate_parameters\<close> that switch checks on and off.\<close>

record flags =
  check_unknowns :: bool
  check_required :: bool
  check_exist :: bool
  expand_globs :: bool
  create_dirs :: bool

text \<open>A text between single quotes, as the messages write names and values.\<close>

definition quoted :: "string \<Rightarrow> string" where
  "quoted s = [CHR 0x27] @ s @ [CHR 0x27]"

definition join_quote :: "string list \<Rightarrow> string" where
  "join_quote values =
     (if values \<noteq> [] then quoted (py_join (''', '' @ [CHR 0x27]) values) else [])"

subsection \<open>Unknown names, the split of the inputs, defaults\<close>

fun find_unknown :: "pydict \<Rightarrow> (string \<times> Parameter) list \<Rightarrow> exc + unit" where
  "find_unknown [] schemas = Inr ()"
| "find_unknown ((name, v) # params) schemas =
     (if \<not> py_in name schemas
      then Inl (ParameterValidationError (''unknown parameter '' @ quoted name))
      else find_unknown params schemas)"

definition is_Unresolved :: "pyval \<Rightarrow> bool" where
  "is_Unresolved v = (case v of Unresolved s \<Rightarrow> True | _ \<Rightarrow> False)"

definition is_Error :: "pyval \<Rightarrow> bool" where
  "is_Error v = (case v of Error s \<Rightarrow> True | _ \<Rightarrow> False)"

text \<open>One iteration of the loop "add missing defaults".\<close>

definition add_default :: "pydict \<Rightarrow> pydict \<Rightarrow> string \<times> Parameter \<Rightarrow> pydict" where
  "add_default defaults inputs entry =
     (case entry of (name, schema) \<Rightarrow>
        if py_get inputs name = PyNone then
          (if py_in name defaults then AList.update name (py_get defaults name) inputs
           else if schema_default schema \<noteq> PyNone
             then AList.update name (schema_default schema) inputs
           else inputs)
        else inputs)"

definition add_defaults :: "(string \<times> Parameter) list \<Rightarrow> pydict \<Rightarrow> pydict \<Rightarrow> pydict" where
  "add_defaults schemas defaults inputs = foldl (add_default defaults) inputs schemas"

subsection \<open>Substitutions\<close>

text \<open>
  The state of the substitution loop: the dictionary \<open>inputs\<close>, the namespace
  \<open>subst1_self\<close> (the object stored under \<open>subst1['self']\<close>) and the flag \<open>changed\<close>.
\<close>

record subst_state =
  st_inputs :: pydict
  st_subst1_self :: pydict
  st_changed :: bool

text \<open>
  One iteration of the inner loop, for the entry \<open>(name, value)\<close>. The keyword arguments
  of \<open>value.format(**subst1)\<close> are the entries of \<open>subst1\<close>, with the current
  \<open>subst1_self\<close> under \<open>self\<close>.
\<close>

definition substitute ::
  "pydict \<Rightarrow> subst_state \<Rightarrow> string \<times> pyval \<Rightarrow> exc + subst_state" where
  "substitute subst1 st entry =
     (case entry of
        (name, PyStr v) \<Rightarrow>
          (let record_change = (\<lambda>newvalue text mirror.
                 Inr (st\<lparr>st_inputs := (if text \<noteq> v then AList.update name newvalue (st_inputs st)
                                      else st_inputs st),
                         st_subst1_self := AList.update name (PyStr mirror) (st_subst1_self st),
                         st_changed := (st_changed st \<or> text \<noteq> v)\<rparr>))
           in case py_format v [] (AList.update ''self'' (Namespace (st_subst1_self st)) subst1) of
                Inr s \<Rightarrow> record_change (PyStr s) s s
              | Inl (ConfigAttributeError key) \<Rightarrow>
                  record_change (Error (''ERR ('' @ key @ '')'')) (''ERR ('' @ key @ '')'')
                    (''ERR ('' @ key @ '')'')
              | Inl e \<Rightarrow>
                  (case exc_text e of
                     Some text \<Rightarrow> record_change (Error text) text ''ERR''
                   | None \<Rightarrow> Inl Unmodelled))
      | (name, other) \<Rightarrow> Inr st)"

text \<open>One pass: \<open>changed = False\<close>, then the loop over \<open>inputs.items()\<close>.\<close>

definition substitution_pass :: "pydict \<Rightarrow> subst_state \<Rightarrow> exc + subst_state" where
  "substitution_pass subst1 st =
     for_each (substitute subst1) (st\<lparr>st_changed := False\<rparr>) (st_inputs st)"

definition recursion_limit_message :: string where
  "recursion_limit_message =
     ''recursion limit exceeded while evaluating {}-substitutions. This is usally caused by cyclic (cross-)references.''"

text \<open>
  \<open>for i in range(10): ... else: raise\<close>, with \<open>n\<close> passes left and \<open>i\<close> the index of the
  pass; the result carries the index of the pass that found nothing changed.
\<close>

fun substitution_loop :: "nat \<Rightarrow> nat \<Rightarrow> pydict \<Rightarrow> subst_state \<Rightarrow> exc + nat \<times> subst_state" where
  "substitution_loop 0 i subst1 st = Inl (ParameterValidationError recursion_limit_message)"
| "substitution_loop (Suc n) i subst1 st =
     and_then (substitution_pass subst1 st) (\<lambda>st'.
       if \<not> st_changed st' then Inr (i, st') else substitution_loop n (Suc i) subst1 st')"

text \<open>The branch \<open>subst is not None\<close>.\<close>

definition do_substitutions :: "pydict \<Rightarrow> pydict \<Rightarrow> exc + nat \<times> subst_state" where
  "do_substitutions subst inputs0 =
     and_then (SubstitutionNamespace subst) (\<lambda>subst1.
     and_then (SubstitutionNamespace inputs0) (\<lambda>self0.
       substitution_loop 10 0 subst1
         \<lparr>st_inputs = inputs0, st_subst1_self = self0, st_changed = False\<rparr>))"

text \<open>\<open>re.search("{[^{]", value)\<close>: an opening brace followed by another character.\<close>

fun has_substitution :: "string \<Rightarrow> bool" where
  "has_substitution (c # d # cs) = ((c = CHR ''{'' \<and> d \<noteq> CHR ''{'') \<or> has_substitution (d # cs))"
| "has_substitution cs = False"

text \<open>The branch \<open>subst is None\<close>: one iteration over \<open>list(inputs.items())\<close>.\<close>

definition set_aside :: "pydict \<times> pydict \<Rightarrow> string \<times> pyval \<Rightarrow> pydict \<times> pydict" where
  "set_aside st entry =
     (case (st, entry) of
        ((inputs, unresolved), (name, PyStr v)) \<Rightarrow>
          if has_substitution v
          then (AList.delete name inputs, AList.update name (Unresolved v) unresolved)
          else (inputs, unresolved)
      | ((inputs, unresolved), other) \<Rightarrow> (inputs, unresolved))"

text \<open>
  Lines 110 to 162: the check for unknowns, the split, the defaults and the
  substitutions. The result is the pair \<open>(inputs, unresolved)\<close>.
\<close>

definition resolve_inputs ::
  "flags \<Rightarrow> pydict \<Rightarrow> (string \<times> Parameter) list \<Rightarrow> pydict option \<Rightarrow> pydict option
   \<Rightarrow> exc + pydict \<times> pydict" where
  "resolve_inputs fl params schemas subst defaults =
     and_then (if check_unknowns fl then find_unknown params schemas else Inr ()) (\<lambda>u.
       let inputs0 = filter (\<lambda>(name, v). \<not> is_Unresolved v) params;
           unresolved = filter (\<lambda>(name, v). is_Unresolved v) params;
           inputs1 = add_defaults schemas (case defaults of None \<Rightarrow> [] | Some d \<Rightarrow> d) inputs0
       in case subst of
            Some s \<Rightarrow>
              and_then (do_substitutions s inputs1) (\<lambda>(i, st). Inr (st_inputs st, unresolved))
          | None \<Rightarrow> Inr (foldl set_aside (inputs1, unresolved) inputs1))"


subsection \<open>Required parameters\<close>

definition missing_required ::
  "(string \<times> Parameter) list \<Rightarrow> pydict \<Rightarrow> pydict \<Rightarrow> string list" where
  "missing_required schemas inputs unresolved =
     map fst (filter (\<lambda>(name, schema).
        required schema \<and> py_get inputs name = PyNone \<and> \<not> py_in name unresolved) schemas)"

definition check_required_args ::
  "(string \<times> Parameter) list \<Rightarrow> pydict \<Rightarrow> pydict \<Rightarrow> exc + unit" where
  "check_required_args schemas inputs unresolved =
     (let missing = missing_required schemas inputs unresolved
      in if missing \<noteq> []
         then Inl (ParameterValidationError
                (''missing required parameters: '' @ join_quote missing))
         else Inr ())"

subsection \<open>The types of the fields\<close>

text \<open>
  One iteration of the loop that fills \<open>dtypes\<close> and \<open>fields\<close>. Each name is a key of
  \<open>schemas\<close> and so comes once; \<open>dtypes[name]\<close> is read from the list of fields.
\<close>

definition add_field ::
  "'fs env \<Rightarrow> pydict \<Rightarrow> (string \<times> pytype) list \<Rightarrow> string \<times> Parameter
   \<Rightarrow> exc + (string \<times> pytype) list" where
  "add_field env inputs flds entry =
     (case entry of (name, schema) \<Rightarrow>
        if py_get inputs name \<noteq> PyNone then
          (case eval_dtype env (dtype schema) of
             None \<Rightarrow> Inl (SchemaError (''invalid '' @ name @ ''.dtype = '' @ dtype schema))
           | Some dtype_impl \<Rightarrow> Inr (flds @ [(name, dtype_impl)]))
        else Inr flds)"

subsection \<open>Files and globs\<close>

text \<open>\<open>all(check(f) for f in files)\<close>, where the check may raise.\<close>

fun all_of :: "('a \<Rightarrow> exc + bool) \<Rightarrow> 'a list \<Rightarrow> exc + bool" where
  "all_of check [] = Inr True"
| "all_of check (f # files) =
     and_then (check f) (\<lambda>ok. if ok then all_of check files else Inr False)"

text \<open>\<open>os.path.dirname(path)\<close> followed by \<open>os.makedirs\<close> when the name is not empty.\<close>

definition make_parent :: "'fs env \<Rightarrow> 'fs \<Rightarrow> pyval \<Rightarrow> exc + 'fs" where
  "make_parent env fs path =
     (case path of
        PyStr p \<Rightarrow> if dirname p \<noteq> [] then makedirs env fs (dirname p) else Inr fs
      | Error p \<Rightarrow> if dirname p \<noteq> [] then makedirs env fs (dirname p) else Inr fs
      | other \<Rightarrow> Inl PyTypeError)"

text \<open>The list \<open>files\<close> that a value stands for.\<close>

definition match_files :: "'fs env \<Rightarrow> flags \<Rightarrow> 'fs \<Rightarrow> string \<Rightarrow> pyval \<Rightarrow> exc + pyval list" where
  "match_files env fl fs name v =
     (case v of
        PyStr s \<Rightarrow>
          (case safe_load_list env s of
             Some files \<Rightarrow> Inr files
           | None \<Rightarrow> Inr (if expand_globs fl then map PyStr (glob env fs s) else [PyStr s]))
      | PyList files \<Rightarrow> Inr files
      | other \<Rightarrow>
          Inl (ParameterValidationError
            (quoted name @ '': invalid type '' @ quoted (type_repr v))))"

text \<open>
  The check of existence and the creation of the parent directory for a parameter of
  a scalar file type whose single file is \<open>f\<close>; the result is the file system.
\<close>

definition check_one_file ::
  "'fs env \<Rightarrow> flags \<Rightarrow> 'fs \<Rightarrow> string \<Rightarrow> pyval \<Rightarrow> pytype \<Rightarrow> pyval \<Rightarrow> exc + 'fs" where
  "check_one_file env fl fs name v dtype_impl f =
     and_then
       (if check_exist fl then
          (if dtype_impl = T_File
           then and_then (isfile env fs f) (\<lambda>ok.
                  if \<not> ok
                  then Inl (ParameterValidationError
                         (quoted name @ '': '' @ quoted (py_str v) @ '' is not a regular file''))
                  else Inr ())
           else and_then (isdir env fs f) (\<lambda>ok.
                  if \<not> ok
                  then Inl (ParameterValidationError
                         (quoted name @ '': '' @ quoted (py_str v) @ '' is not a directory''))
                  else Inr ()))
        else Inr ())
       (\<lambda>u. if create_dirs fl then make_parent env fs f else Inr fs)"

text \<open>The same for a parameter of a list type and its list of files.\<close>

definition check_file_list ::
  "'fs env \<Rightarrow> flags \<Rightarrow> 'fs \<Rightarrow> string \<Rightarrow> pyval \<Rightarrow> pytype \<Rightarrow> pyval list \<Rightarrow> exc + 'fs" where
  "check_file_list env fl fs name v dtype_impl files =
     and_then
       (if check_exist fl then
          (if dtype_impl = T_List T_File
           then and_then (all_of (isfile env fs) files) (\<lambda>ok.
                  if \<not> ok
                  then Inl (ParameterValidationError
                         (name @ '': '' @ quoted (py_str v) @ '' matches non-files''))
                  else Inr ())
           else and_then (all_of (isdir env fs) files) (\<lambda>ok.
                  if \<not> ok
                  then Inl (ParameterValidationError
                         (name @ '': '' @ quoted (py_str v) @ '' matches non-directories''))
                  else Inr ()))
        else Inr ())
       (\<lambda>u. if create_dirs fl then for_each (make_parent env) fs files else Inr fs)"

text \<open>
  The body of the loop for a value \<open>v\<close> of a file type, from the list \<open>files\<close> on.
\<close>

definition store_files ::
  "'fs env \<Rightarrow> flags \<Rightarrow> Parameter \<Rightarrow> pytype \<Rightarrow> pydict \<times> 'fs \<Rightarrow> string \<Rightarrow> pyval
   \<Rightarrow> pyval list \<Rightarrow> exc + pydict \<times> 'fs" where
  "store_files env fl schema dtype_impl st name v files =
     (case (st, files) of
        ((inputs, fs), []) \<Rightarrow>
          if required schema \<and> check_exist fl
          then Inl (ParameterValidationError
                 (quoted name @ '': no files found for '' @ quoted (py_str v)))
          else Inr (AList.update name
                      (if dtype_impl \<in> set [T_List T_File, T_List T_Directory, T_List T_MS]
                       then PyList [] else PyStr [])
                      inputs, fs)
      | ((inputs, fs), f # others) \<Rightarrow>
          if dtype_impl \<in> set [T_File, T_Directory, T_MS] then
            (if others \<noteq> []
             then Inl (ParameterValidationError
                    (quoted name @ '': multiple files given ('' @ quoted (py_str v) @ '')''))
             else and_then (check_one_file env fl fs name v dtype_impl f)
                    (\<lambda>fs'. Inr (AList.update name f inputs, fs')))
          else and_then (check_file_list env fl fs name v dtype_impl files)
                 (\<lambda>fs'. Inr (AList.update name (PyList files) inputs, fs')))"

text \<open>
  One iteration of the loop "check Files etc. and expand globs", for the entry
  \<open>(name, v)\<close> of \<open>inputs\<close>. The state is \<open>inputs\<close> and the file system.
\<close>

definition check_files ::
  "'fs env \<Rightarrow> flags \<Rightarrow> (string \<times> Parameter) list \<Rightarrow> (string \<times> pytype) list
   \<Rightarrow> pydict \<times> 'fs \<Rightarrow> string \<times> pyval \<Rightarrow> exc + pydict \<times> 'fs" where
  "check_files env fl schemas dtypes st entry =
     (case entry of (name, v) \<Rightarrow>
        (case map_of schemas name of
           None \<Rightarrow> Inr st
         | Some schema \<Rightarrow>
             if v = PyNone \<or> is_Error v then Inr st
             else
               (case map_of dtypes name of
                  None \<Rightarrow> Inl (KeyError name)
                | Some dtype_impl \<Rightarrow>
                    if dtype_impl \<in> set [T_File, T_Directory, T_MS, T_List T_File,
                                         T_List T_Directory, T_List T_MS]
                    then and_then (match_files env fl (snd st) name v)
                           (store_files env fl schema dtype_impl st name v)
                    else Inr st)))"

subsection \<open>The typed record, choices, directories\<close>

text \<open>
  \<open>'.'.join(err['loc'])\<close> raises a \<open>TypeError\<close> when the location holds an index; an
  error then reads \<open>'loc': msg\<close>.
\<close>

definition loc_strings :: "loc_item list \<Rightarrow> exc + string list" where
  "loc_strings loc =
     map_exc (\<lambda>item. case item of LocStr s \<Rightarrow> Inr s | LocInt i \<Rightarrow> Inl PyTypeError) loc"

definition error_line :: "loc_item list \<times> string \<Rightarrow> exc + string" where
  "error_line err =
     (case err of (loc, msg) \<Rightarrow>
        and_then (loc_strings loc) (\<lambda>names.
          Inr (quoted (py_join ''.'' names) @ '': '' @ msg)))"

definition validate_record ::
  "(pydict \<Rightarrow> validation) \<Rightarrow> (string \<times> Parameter) list \<Rightarrow> pydict \<Rightarrow> exc + pydict" where
  "validate_record pcls schemas inputs =
     (case pcls (filter (\<lambda>(name, v). py_in name schemas \<and> v \<noteq> PyNone) inputs) of
        Validated validated \<Rightarrow> Inr validated
      | ValidationError errs \<Rightarrow>
          and_then (map_exc error_line errs) (\<lambda>errors.
            Inl (ParameterValidationError (py_join '', '' errors)))
      | Crash e \<Rightarrow> Inl e)"

text \<open>One iteration of the loop "check choice-type parameters".\<close>

definition check_choice ::
  "(string \<times> Parameter) list \<Rightarrow> unit \<Rightarrow> string \<times> pyval \<Rightarrow> exc + unit" where
  "check_choice schemas u entry =
     (case entry of (name, v) \<Rightarrow>
        (case map_of schemas name of
           None \<Rightarrow> Inl (KeyError name)
         | Some schema \<Rightarrow>
             if choices schema \<noteq> [] \<and> \<not> py_in_list v (choices schema)
             then Inl (ParameterValidationError
                    (name @ '': invalid value '' @ quoted (py_str v)))
             else Inr ()))"

text \<open>One iteration of the loop "check for mkdir directives".\<close>

definition check_mkdir ::
  "'fs env \<Rightarrow> (string \<times> Parameter) list \<Rightarrow> 'fs \<Rightarrow> string \<times> pyval \<Rightarrow> exc + 'fs" where
  "check_mkdir env schemas fs entry =
     (case entry of (name, v) \<Rightarrow>
        (case map_of schemas name of
           None \<Rightarrow> Inl (KeyError name)
         | Some schema \<Rightarrow> if mkdir schema then make_parent env fs v else Inr fs))"

subsection \<open>\<open>validate_parameters\<close>\<close>

text \<open>
  Lines 164 to 288, from the pair \<open>(inputs, unresolved)\<close> on. The result is the returned
  dictionary and the state of the file system.
\<close>

definition validate_resolved ::
  "'fs env \<Rightarrow> flags \<Rightarrow> 'fs \<Rightarrow> (string \<times> Parameter) list \<Rightarrow> pydict \<times> pydict
   \<Rightarrow> exc + pydict \<times> 'fs" where
  "validate_resolved env fl fs schemas resolved =
     (case resolved of (inputs, unresolved) \<Rightarrow>
        and_then (if check_required fl then check_required_args schemas inputs unresolved
                  else Inr ()) (\<lambda>u.
        and_then (for_each (add_field env inputs) [] schemas) (\<lambda>flds.
        and_then (make_pcls env flds) (\<lambda>pcls.
        and_then (for_each (check_files env fl schemas flds) (inputs, fs) inputs) (\<lambda>(inputs', fs').
        and_then (validate_record pcls schemas inputs') (\<lambda>validated.
        and_then (for_each (check_choice schemas) () validated) (\<lambda>u.
        and_then (if create_dirs fl then for_each (check_mkdir env schemas) fs' validated
                  else Inr fs') (\<lambda>fs''.
          Inr (foldl (\<lambda>d (name, v). AList.update name v d) validated unresolved, fs'')))))))))"

definition validate_parameters ::
  "'fs env \<Rightarrow> 'fs \<Rightarrow> pydict \<Rightarrow> (string \<times> Parameter) list \<Rightarrow> pydict option \<Rightarrow> pydict option
   \<Rightarrow> flags \<Rightarrow> exc + pydict \<times> 'fs" where
  "validate_parameters env fs params schemas subst defaults fl =
     and_then (resolve_inputs fl params schemas subst defaults)
       (validate_resolved env fl fs schemas)"

text \<open>The default values of the keyword arguments.\<close>

definition default_flags :: flags where
  "default_flags =
     \<lparr>check_unknowns = True, check_required = True, check_exist = True,
      expand_globs = True, create_dirs = False\<rparr>"


section \<open>cargo.py: the argument list\<close>

text \<open>
  The part of a \<open>Cab\<close> instance that \<open>build_argument_list\<close> reads: the schemas in
  declaration order, the validated parameters and the policies of the cab.
\<close>

record Cab =
  inputs_outputs :: "(string \<times> Parameter) list"
  params :: pydict
  cab_policies :: ParameterPolicies

text \<open>
  \<open>get_policy(schema, policy)\<close>; the name of the policy is the selector of the field.
\<close>

definition get_policy :: "Cab \<Rightarrow> Parameter \<Rightarrow> (ParameterPolicies \<Rightarrow> 'a option) \<Rightarrow> 'a option" where
  "get_policy self schema policy =
     (if policy (policies schema) \<noteq> None then policy (policies schema)
      else policy (cab_policies self))"

text \<open>The truth value of an optional boolean and of an optional string or list.\<close>

definition is_true :: "bool option \<Rightarrow> bool" where
  "is_true b = (b = Some True)"

definition nonempty :: "'a list option \<Rightarrow> bool" where
  "nonempty s = (case s of None \<Rightarrow> False | Some x \<Rightarrow> x \<noteq> [])"

text \<open>
  \<open>hasattr(value, '__iter__')\<close>, and the elements that iterating over the value
  yields: those of a list, the keys of a dictionary, the characters of a string.
\<close>

fun has_iter :: "pyval \<Rightarrow> bool" where
  "has_iter (PyStr s) = True"
| "has_iter (Error s) = True"
| "has_iter (PyList xs) = True"
| "has_iter (PyDict d) = True"
| "has_iter (Namespace d) = True"
| "has_iter v = False"

fun py_iter :: "pyval \<Rightarrow> pyval list" where
  "py_iter (PyList xs) = xs"
| "py_iter (PyDict d) = map (\<lambda>(k, v). PyStr k) d"
| "py_iter (Namespace d) = map (\<lambda>(k, v). PyStr k) d"
| "py_iter (PyStr s) = map (\<lambda>c. PyStr [c]) s"
| "py_iter (Error s) = map (\<lambda>c. PyStr [c]) s"
| "py_iter v = []"

text \<open>The value of an optional string or list that has been found not empty.\<close>

definition or_empty :: "'a list option \<Rightarrow> 'a list" where
  "or_empty s = (case s of None \<Rightarrow> [] | Some x \<Rightarrow> x)"

text \<open>
  The variable \<open>value\<close> after the formatting policies: a list of strings when \<open>is_list\<close>
  holds, one string otherwise.
\<close>

datatype formatted = Strings "string list" | String string

text \<open>The first half of \<open>stringify_argument\<close>: splitting and formatting.\<close>

definition format_value ::
  "Cab \<Rightarrow> pydict \<Rightarrow> pyval \<Rightarrow> Parameter \<Rightarrow> exc + formatted" where
  "format_value self value_dict v schema =
     (let format_policy = get_policy self schema format;
          format_list_policy = get_policy self schema format_list;
          split_policy = get_policy self schema split;
          is_str = (case v of PyStr s \<Rightarrow> True | other \<Rightarrow> False);
          do_split = (is_str \<and> nonempty split_policy);
          v1 = (if do_split then PyList (map PyStr (py_split (py_str v) (or_empty split_policy)))
                else v);
          is_list = (do_split \<or> (has_iter v \<and> \<not> is_str))
      in if is_list then
           (if nonempty format_list_policy then
              (if length (or_empty format_list_policy) \<noteq> length (py_iter v1)
               then Inl (SchemaError
                      (''length of format_list_policy does not match length of ''
                         @ quoted ''{name}''))
               else and_then
                 (map_exc (\<lambda>fmt. py_format fmt (py_iter v1) value_dict)
                    (or_empty format_list_policy))
                 (\<lambda>strs. Inr (Strings strs)))
            else if nonempty format_policy then
              and_then
                (map_exc (\<lambda>x. py_format (or_empty format_policy) [x] value_dict) (py_iter v1))
                (\<lambda>strs. Inr (Strings strs))
            else Inr (Strings (map py_str (py_iter v1))))
         else
           (if nonempty format_list_policy then
              and_then
                (map_exc (\<lambda>fmt. py_format fmt [v1] value_dict) (or_empty format_list_policy))
                (\<lambda>strs. Inr (Strings strs))
            else if nonempty format_policy then
              and_then (py_format (or_empty format_policy) [v1] value_dict)
                (\<lambda>s. Inr (String s))
            else Inr (String (py_str v1))))"

text \<open>
  The second half: the representation under the repeat policy. \<open>itertools.chain\<close> is
  given one argument, the generator of the pairs \<open>[option, x]\<close>, and yields these
  pairs themselves.
\<close>

definition form_up ::
  "Cab \<Rightarrow> string \<Rightarrow> Parameter \<Rightarrow> string option \<Rightarrow> formatted \<Rightarrow> exc + pyval" where
  "form_up self name schema option fv =
     (case fv of
        Strings strs \<Rightarrow>
          (case get_policy self schema repeat of
             None \<Rightarrow>
               Inl (TypeError (''list-type parameter '' @ quoted name
                      @ '' does not have a repeat policy set''))
           | Some repeat_policy \<Rightarrow>
               if repeat_policy = ''list'' then
                 Inr (if nonempty option
                      then PyList (PyStr (or_empty option) # map PyStr strs)
                      else PyList (map PyStr strs))
               else if repeat_policy = ''repeat'' then
                 Inr (if nonempty option
                      then PyList (map (\<lambda>x. PyList [PyStr (or_empty option), PyStr x]) strs)
                      else PyList (map PyStr strs))
               else
                 Inr (if nonempty option
                      then PyList [PyStr (or_empty option), PyStr (py_join repeat_policy strs)]
                      else PyStr (py_join repeat_policy strs)))
      | String s \<Rightarrow>
          Inr (if nonempty option then PyList [PyStr (or_empty option), PyStr s]
               else PyList [PyStr s]))"

text \<open>
  \<open>stringify_argument(name, value, schema, option)\<close>; \<open>value_dict\<close> is the variable of
  the enclosing function, as it stands at the call. The result is \<open>None\<close>, a list or,
  for a joined list without option, a string.
\<close>

definition stringify_argument ::
  "Cab \<Rightarrow> pydict \<Rightarrow> string \<Rightarrow> pyval \<Rightarrow> Parameter \<Rightarrow> string option \<Rightarrow> exc + pyval" where
  "stringify_argument self value_dict name v schema option =
     (if v = PyNone then Inr PyNone
      else if dtype schema = ''bool'' \<and> \<not> truthy v then Inr PyNone
      else and_then (format_value self value_dict v schema) (form_up self name schema option))"

text \<open>What the caller adds to its list of arguments for a result of \<open>stringify_argument\<close>.\<close>

fun tokens_of :: "pyval \<Rightarrow> pyval list" where
  "tokens_of (PyList xs) = xs"
| "tokens_of PyNone = []"
| "tokens_of v = [v]"

definition skipped :: "Cab \<Rightarrow> Parameter \<Rightarrow> bool" where
  "skipped self schema =
     (is_true (get_policy self schema skip) \<or>
      (nonempty (implicit schema) \<and> is_true (get_policy self schema skip_implicits)))"

text \<open>
  One iteration of the first loop, over \<open>self.inputs_outputs.items()\<close>. The state is
  \<open>value_dict\<close> and the two lists of \<open>pos_args\<close>.
\<close>

definition collect_positional ::
  "Cab \<Rightarrow> pydict \<times> pyval list \<times> pyval list \<Rightarrow> string \<times> Parameter
   \<Rightarrow> exc + pydict \<times> pyval list \<times> pyval list" where
  "collect_positional self st entry =
     (case (st, entry) of ((value_dict, head_args, tail_args), (name, schema)) \<Rightarrow>
        if required schema \<and> \<not> py_in name value_dict
        then Inl (RuntimeError (''required parameter '' @ quoted name @ '' is missing''))
        else if py_in name value_dict then
          (let positional_first = is_true (get_policy self schema positional_head);
               is_positional = (is_true (get_policy self schema positional) \<or> positional_first)
           in if is_positional then
                (if \<not> skipped self schema then
                   and_then
                     (stringify_argument self value_dict name (py_get value_dict name) schema None)
                     (\<lambda>v. Inr (AList.delete name value_dict,
                                (if positional_first then head_args @ tokens_of v else head_args),
                                (if positional_first then tail_args else tail_args @ tokens_of v)))
                 else Inr (AList.delete name value_dict, head_args, tail_args))
              else Inr (value_dict, head_args, tail_args))
        else Inr (value_dict, head_args, tail_args))"

text \<open>One iteration of the second loop, over \<open>value_dict.items()\<close>.\<close>

definition add_option ::
  "Cab \<Rightarrow> pydict \<Rightarrow> pyval list \<Rightarrow> string \<times> pyval \<Rightarrow> exc + pyval list" where
  "add_option self value_dict args entry =
     (case entry of (name, v) \<Rightarrow>
        (case map_of (inputs_outputs self) name of
           None \<Rightarrow> Inl (RuntimeError (''unknown parameter '' @ quoted name))
         | Some schema \<Rightarrow>
             if skipped self schema then Inr args
             else
               let option = (if nonempty (get_policy self schema prefix)
                             then or_empty (get_policy self schema prefix) else ''--'')
                            @ (if nonempty (param_alias schema) then or_empty (param_alias schema)
                               else name)
               in if dtype schema = ''bool'' \<and> truthy v then Inr (args @ [PyStr option])
                  else and_then (stringify_argument self value_dict name v schema (Some option))
                         (\<lambda>r. Inr (args @ tokens_of r))))"

definition build_argument_list :: "Cab \<Rightarrow> exc + pyval list" where
  "build_argument_list self =
     and_then (for_each (collect_positional self) (params self, [], []) (inputs_outputs self))
       (\<lambda>(value_dict, head_args, tail_args).
          and_then (for_each (add_option self value_dict) [] value_dict)
            (\<lambda>args. Inr (head_args @ args @ tail_args)))"

text \<open>
  The result that the specification gives for the policy \<open>repeat\<close>: the option before
  every element, in one flat list.
\<close>

definition repeat_tokens :: "string \<Rightarrow> string list \<Rightarrow> pyval list" where
  "repeat_tokens option strs = concat (map (\<lambda>x. [PyStr option, PyStr x]) strs)"

text \<open>
  The effective policy as the specification words it: every field of the parameter's
  policies where it is set, the field of the cab's policies where it is not.
\<close>

definition first_set :: "'a option \<Rightarrow> 'a option \<Rightarrow> 'a option" where
  "first_set p t = (case p of Some v \<Rightarrow> Some v | None \<Rightarrow> t)"

definition effective_policies :: "ParameterPolicies \<Rightarrow> ParameterPolicies \<Rightarrow> ParameterPolicies" where
  "effective_policies p t =
     \<lparr>positional = first_set (positional p) (positional t),
      positional_head = first_set (positional_head p) (positional_head t),
      repeat = first_set (repeat p) (repeat t),
      prefix = first_set (prefix p) (prefix t),
      skip = first_set (skip p) (skip t),
      skip_implicits = first_set (skip_implicits p) (skip_implicits t),
      split = first_set (split p) (split t),
      format = first_set (format p) (format t),
      format_list = first_set (format_list p) (format_list t)\<rparr>"

definition no_policies :: ParameterPolicies where
  "no_policies =
     \<lparr>positional = None, positional_head = None, repeat = None, prefix = None, skip = None,
      skip_implicits = None, split = None, format = None, format_list = None\<rparr>"

text \<open>The policies of the dataclass \<open>ParameterPolicies\<close> with every field at its default.\<close>

definition default_policies :: ParameterPolicies where
  "default_policies = no_policies\<lparr>skip := Some False, skip_implicits := Some True\<rparr>"

text \<open>
  The cab in which the choice is made beforehand: every parameter carries its effective
  policies and the cab has none.
\<close>

definition with_effective :: "Cab \<Rightarrow> string \<times> Parameter \<Rightarrow> string \<times> Parameter" where
  "with_effective self entry =
     (case entry of (name, schema) \<Rightarrow>
        (name, schema\<lparr>policies := effective_policies (policies schema) (cab_policies self)\<rparr>))"

definition resolved_cab :: "Cab \<Rightarrow> Cab" where
  "resolved_cab self =
     self\<lparr>inputs_outputs := map (with_effective self) (inputs_outputs self),
          cab_policies := no_policies\<rparr>"


section \<open>Output wranglers (cargo.py, class Cab)\<close>

text \<open>
  A compiled regular expression is used by \<open>apply_output_wranglers\<close> through two
  methods only: \<open>regex.search(text)\<close>, read for its truth value, and
  \<open>regex.sub(replace, text)\<close>. The record carries exactly these two.
\<close>

record regex =
  rx_search :: "string \<Rightarrow> bool"
  rx_sub :: "string \<Rightarrow> string \<Rightarrow> string"

text \<open>
  The values of \<open>Cab.wrangler_actions\<close>: the integer levels of the logging module
  and the three symbolic constants, which the code tells apart by identity.
\<close>

datatype action =
    Level int
  | ACTION_SUPPRESS
  | ACTION_DECLARE_SUCCESS
  | ACTION_DECLARE_FAILURE

text \<open>An entry of \<open>self._wranglers\<close>: \<open>(regex, replace, actions)\<close>.\<close>

type_synonym wrangler = "regex \<times> string option \<times> action list"

text \<open>The part of a \<open>Cab\<close> instance that the wranglers read and write.\<close>

record cab_runtime =
  wranglers :: "wrangler list"
  runtime_status :: "bool option"

definition reset_runtime_status :: "cab_runtime \<Rightarrow> cab_runtime" where
  "reset_runtime_status cab = cab\<lparr>runtime_status := None\<rparr>"

text \<open>The local variables of one call, together with \<open>self._runtime_status\<close>.\<close>

record wrangle_state =
  suppress :: bool
  modified_output :: string
  severity :: int
  status :: "bool option"

definition logging_ERROR :: int where
  "logging_ERROR = 40"

fun apply_action :: "wrangle_state \<Rightarrow> action \<Rightarrow> wrangle_state" where
  "apply_action st (Level n) = st\<lparr>severity := n\<rparr>"
| "apply_action st ACTION_SUPPRESS = st\<lparr>suppress := True\<rparr>"
| "apply_action st ACTION_DECLARE_FAILURE =
     (if status st = None
      then st\<lparr>status := Some False,
              modified_output := ''[FAILURE] '' @ modified_output st,
              severity := logging_ERROR\<rparr>
      else st)"
| "apply_action st ACTION_DECLARE_SUCCESS =
     (if status st = None
      then st\<lparr>status := Some True,
              modified_output := ''[SUCCESS] '' @ modified_output st\<rparr>
      else st)"

text \<open>One iteration of the loop over \<open>self._wranglers\<close>; \<open>output\<close> is the argument of the call.\<close>

fun apply_wrangler :: "string \<Rightarrow> wrangle_state \<Rightarrow> wrangler \<Rightarrow> wrangle_state" where
  "apply_wrangler output st (rx, replace, actions) =
     (if rx_search rx output
      then foldl apply_action
             (case replace of
                None \<Rightarrow> st
              | Some r \<Rightarrow> st\<lparr>modified_output := rx_sub rx r output\<rparr>)
             actions
      else st)"

definition wrangle :: "cab_runtime \<Rightarrow> string \<Rightarrow> int \<Rightarrow> wrangle_state" where
  "wrangle cab output sev =
     foldl (apply_wrangler output)
       \<lparr>suppress = False, modified_output = output, severity = sev,
        status = runtime_status cab\<rparr>
       (wranglers cab)"

text \<open>
  \<open>apply_output_wranglers\<close> returns the pair \<open>(line, severity)\<close>, with \<open>None\<close> for a
  suppressed line, and leaves the verdict in the instance.
\<close>

definition apply_output_wranglers ::
  "cab_runtime \<Rightarrow> string \<Rightarrow> int \<Rightarrow> (string option \<times> int) \<times> cab_runtime" where
  "apply_output_wranglers cab output sev =
     (let st = wrangle cab output sev
      in ((if suppress st then (None, 0) else (Some (modified_output st), severity st)),
          cab\<lparr>runtime_status := status st\<rparr>))"

text \<open>A sequence of calls on one instance, one per output line.\<close>

fun feed_lines :: "cab_runtime \<Rightarrow> (string \<times> int) list \<Rightarrow> cab_runtime" where
  "feed_lines cab [] = cab"
| "feed_lines cab ((line, sev) # rest) =
     feed_lines (snd (apply_output_wranglers cab line sev)) rest"

text \<open>
  The reading of the specification in which firing rules apply cumulatively: a rule is
  matched against the line as rewritten so far and rewrites that line.
\<close>

fun apply_wrangler_cumulative :: "wrangle_state \<Rightarrow> wrangler \<Rightarrow> wrangle_state" where
  "apply_wrangler_cumulative st (rx, replace, actions) =
     (if rx_search rx (modified_output st)
      then foldl apply_action
             (case replace of
                None \<Rightarrow> st
              | Some r \<Rightarrow> st\<lparr>modified_output := rx_sub rx r (modified_output st)\<rparr>)
             actions
      else st)"

definition apply_output_wranglers_cumulative ::
  "cab_runtime \<Rightarrow> string \<Rightarrow> int \<Rightarrow> (string option \<times> int) \<times> cab_runtime" where
  "apply_output_wranglers_cumulative cab output sev =
     (let st = foldl apply_wrangler_cumulative
                 \<lparr>suppress = False, modified_output = output, severity = sev,
                  status = runtime_status cab\<rparr>
                 (wranglers cab)
      in ((if suppress st then (None, 0) else (Some (modified_output st), severity st)),
          cab\<lparr>runtime_status := status st\<rparr>))"

text \<open>
  The compiled pattern of a single ordinary character \<open>c\<close>, with replacement texts
  free of backslashes: \<open>search\<close> succeeds when \<open>c\<close> occurs, \<open>sub\<close> replaces every
  occurrence.
\<close>

definition char_regex :: "char \<Rightarrow> regex" where
  "char_regex c =
     \<lparr>rx_search = (\<lambda>s. c \<in> set s),
      rx_sub = (\<lambda>r s. concat (map (\<lambda>x. if x = c then r else [x]) s))\<rparr>"


section \<open>An environment to evaluate in\<close>

text \<open>
  The examples below run in this environment: a file system without entries, which
  refuses to create any; parameter texts that are not YAML sequences; the type names of
  the table. Its pydantic dataclass follows pydantic 1.x on fields of a string type
  (\<open>File\<close>, \<open>Directory\<close> and \<open>MS\<close> are subclasses of \<open>str\<close> and are validated as \<open>str\<close>):
  a string, of class \<open>str\<close> or \<open>Error\<close>, is kept as it is and an integer becomes its text.
  Field names other than lower-case words, Python keywords, and every other
  combination of type and value are left unmodelled.
\<close>

definition dtype_table :: "string \<Rightarrow> pytype option" where
  "dtype_table s =
     (case map_of
        [(''str'', T_str), (''int'', T_int), (''bool'', T_bool), (''File'', T_File),
         (''Directory'', T_Directory), (''MS'', T_MS), (''List[str]'', T_List T_str),
         (''List[int]'', T_List T_int), (''List[File]'', T_List T_File),
         (''List[Directory]'', T_List T_Directory), (''List[MS]'', T_List T_MS)] s of
        Some t \<Rightarrow> Some t
      | None \<Rightarrow> Some (T_other s))"

definition python_keywords :: "string list" where
  "python_keywords =
     [''and'', ''as'', ''assert'', ''async'', ''await'', ''break'', ''class'', ''continue'',
      ''def'', ''del'', ''elif'', ''else'', ''except'', ''finally'', ''for'', ''from'',
      ''global'', ''if'', ''import'', ''in'', ''is'', ''lambda'', ''nonlocal'', ''not'', ''or'',
      ''pass'', ''raise'', ''return'', ''try'', ''while'', ''with'', ''yield'']"

definition plain_name :: "string \<Rightarrow> bool" where
  "plain_name s =
     (s \<noteq> [] \<and> list_all (\<lambda>c. c \<in> set ''abcdefghijklmnopqrstuvwxyz'') s \<and>
      s \<notin> set python_keywords)"

definition is_str_type :: "pytype \<Rightarrow> bool" where
  "is_str_type t = (t \<in> set [T_str, T_File, T_Directory, T_MS])"

fun coerce_str :: "pyval \<Rightarrow> pyval option" where
  "coerce_str (PyStr s) = Some (PyStr s)"
| "coerce_str (Error s) = Some (Error s)"
| "coerce_str (PyInt i) = Some (PyStr (str_int i))"
| "coerce_str v = None"

fun coerce_items :: "pyval list \<Rightarrow> pyval list option" where
  "coerce_items [] = Some []"
| "coerce_items (x # xs) =
     (case (coerce_str x, coerce_items xs) of
        (Some y, Some ys) \<Rightarrow> Some (y # ys)
      | other \<Rightarrow> None)"

definition coerce :: "pytype \<Rightarrow> pyval \<Rightarrow> pyval option" where
  "coerce t v =
     (if is_str_type t then coerce_str v
      else case (t, v) of
             (T_List u, PyList xs) \<Rightarrow>
               if is_str_type u then map_option PyList (coerce_items xs) else None
           | other \<Rightarrow> None)"

fun instantiate :: "(string \<times> pytype) list \<Rightarrow> pydict \<Rightarrow> pydict option" where
  "instantiate [] kwargs = Some []"
| "instantiate ((name, t) # flds) kwargs =
     (case map_of kwargs name of
        None \<Rightarrow> None
      | Some v \<Rightarrow>
          (case (coerce t v, instantiate flds kwargs) of
             (Some w, Some rest) \<Rightarrow> Some ((name, w) # rest)
           | other \<Rightarrow> None))"

definition plain_pcls :: "(string \<times> pytype) list \<Rightarrow> exc + (pydict \<Rightarrow> validation)" where
  "plain_pcls flds =
     (if list_all (\<lambda>(name, t). plain_name name) flds
      then Inr (\<lambda>kwargs.
             if length kwargs \<noteq> length flds then Crash Unmodelled
             else case instantiate flds kwargs of
                    Some validated \<Rightarrow> Validated validated
                  | None \<Rightarrow> Crash Unmodelled)
      else Inl Unmodelled)"

definition plain_env :: "unit env" where
  "plain_env =
     \<lparr>eval_dtype = dtype_table,
      safe_load_list = (\<lambda>s. None),
      glob = (\<lambda>fs pattern. []),
      isfile = (\<lambda>fs path. Inr False),
      isdir = (\<lambda>fs path. Inr False),
      makedirs = (\<lambda>fs path. Inl OSError),
      make_pcls = plain_pcls\<rparr>"

text \<open>A parameter of type \<open>str\<close> with every other field at the default of the dataclass.\<close>

definition str_parameter :: Parameter where
  "str_parameter =
     \<lparr>dtype = ''str'', implicit = None, required = False, choices = [],
      param_alias = Some [], policies = default_policies, schema_default = PyNone,
      mkdir = False\<rparr>"

text \<open>
  A cab with the one parameter \<open>n\<close> holding \<open>[1, 2]\<close>, under the repeat policy \<open>r\<close>.
\<close>

definition list_cab :: "string option \<Rightarrow> Cab" where
  "list_cab r =
     \<lparr>inputs_outputs =
        [(''n'', str_parameter\<lparr>dtype := ''List[int]'',
                               policies := default_policies\<lparr>repeat := r\<rparr>\<rparr>)],
      params = [(''n'', PyList [PyInt 1, PyInt 2])],
      cab_policies = default_policies\<rparr>"


section \<open>Evaluation\<close>

lemma and_then_simps [simp]:
  "and_then (Inl e) f = Inl e"
  "and_then (Inr v) f = f v"
  by (simp_all add: and_then_def)


lemma substitution_loop_numeral:
  "substitution_loop (numeral k) i subst1 st =
     and_then (substitution_pass subst1 st) (\<lambda>st'.
       if \<not> st_changed st' then Inr (i, st')
       else substitution_loop (pred_numeral k) (Suc i) subst1 st')"
  by (simp add: numeral_eq_Suc)

lemma namespace_of_strings:
  "SubstitutionNamespace [(''a'', PyStr x), (''b'', PyStr y)] =
     Inr [(''a'', PyStr x), (''b'', PyStr y)]"
  "SubstitutionNamespace [(''a'', PyStr x)] = Inr [(''a'', PyStr x)]"
  by (simp_all add: py_in_def)

lemmas format_defs =
  py_format_def render_field_def field_object_def is_digit_def dict_attributes_def
  repr_str_def repr_char_def printable_def

lemmas substitution_defs =
  do_substitutions_def substitution_loop_numeral substitution_pass_def substitute_def py_in_def
  update_conv' Let_def format_defs

lemmas validate_defs =
  validate_parameters_def resolve_inputs_def validate_resolved_def add_defaults_def
  add_default_def is_Unresolved_def is_Error_def py_get_def check_required_args_def
  missing_required_def add_field_def check_files_def store_files_def match_files_def validate_record_def
  check_choice_def py_in_list_def quoted_def default_flags_def

lemmas plain_env_defs =
  plain_env_def plain_pcls_def plain_name_def python_keywords_def dtype_table_def coerce_def
  is_str_type_def str_parameter_def default_policies_def no_policies_def

lemmas cargo_defs =
  build_argument_list_def collect_positional_def add_option_def stringify_argument_def
  format_value_def form_up_def get_policy_def skipped_def is_true_def nonempty_def or_empty_def
  py_in_def py_get_def default_policies_def no_policies_def str_parameter_def list_cab_def
  str_int_def str_nat.simps digit_char_def quoted_def


section \<open>List values under the repeat policies\<close>

text \<open>
  The cab of the example: one parameter \<open>n\<close> with the value \<open>[1, 2]\<close>, the default prefix
  and the repeat policy \<open>r\<close>. Three of the four policies give what the specification
  says.
\<close>

lemma repeat_list:
  "build_argument_list (list_cab (Some ''list'')) =
     Inr [PyStr ''--n'', PyStr ''1'', PyStr ''2'']"
  by (simp add: cargo_defs)

lemma repeat_separator:
  "build_argument_list (list_cab (Some '','')) = Inr [PyStr ''--n'', PyStr ''1,2'']"
  by (simp add: cargo_defs)

lemma repeat_unset:
  "build_argument_list (list_cab None) =
     Inl (TypeError ''list-type parameter 'n' does not have a repeat policy set'')"
  by (simp add: cargo_defs)

text \<open>
  Under \<open>repeat\<close>, whatever the strings and the option, the result holds one list per
  element and never the flat list of the specification.
\<close>

lemma repeat_never_flat:
  "get_policy self schema repeat = Some ''repeat'' \<Longrightarrow> nonempty option \<Longrightarrow> strs \<noteq> [] \<Longrightarrow>
   form_up self name schema option (Strings strs) \<noteq>
     Inr (PyList (repeat_tokens (or_empty option) strs))"
  by (cases strs) (simp_all add: form_up_def repeat_tokens_def)

text \<open>
  Claim C1 asks, for the value \<open>[1, 2]\<close>, the option name \<open>n\<close>, the prefix \<open>--\<close> and the
  policy \<open>repeat\<close>, for the tokens \<open>--n 1 --n 2\<close>. The code returns the two lists
  \<open>[--n, 1]\<close> and \<open>[--n, 2]\<close> as the two elements of the argument list.
\<close>

theorem repeat_policy_nests_tokens:
  "build_argument_list (list_cab (Some ''repeat'')) =
     Inr [PyList [PyStr ''--n'', PyStr ''1''], PyList [PyStr ''--n'', PyStr ''2'']] \<and>
   build_argument_list (list_cab (Some ''repeat'')) \<noteq>
     Inr (repeat_tokens ''--n'' [''1'', ''2''])"
  by (simp add: cargo_defs repeat_tokens_def)


section \<open>The effective policy\<close>

lemma get_policy_first_set:
  "get_policy self schema f = first_set (f (policies schema)) (f (cab_policies self))"
  by (cases "f (policies schema)") (simp_all add: get_policy_def first_set_def)

lemma first_set_None [simp]: "first_set p None = p"
  by (cases p) (simp_all add: first_set_def)

lemma get_policy_resolved:
  "get_policy (resolved_cab self) (snd (with_effective self (name, schema))) positional = get_policy self schema positional"
  "get_policy (resolved_cab self) (snd (with_effective self (name, schema))) positional_head = get_policy self schema positional_head"
  "get_policy (resolved_cab self) (snd (with_effective self (name, schema))) repeat = get_policy self schema repeat"
  "get_policy (resolved_cab self) (snd (with_effective self (name, schema))) prefix = get_policy self schema prefix"
  "get_policy (resolved_cab self) (snd (with_effective self (name, schema))) skip = get_policy self schema skip"
  "get_policy (resolved_cab self) (snd (with_effective self (name, schema))) skip_implicits = get_policy self schema skip_implicits"
  "get_policy (resolved_cab self) (snd (with_effective self (name, schema))) split = get_policy self schema split"
  "get_policy (resolved_cab self) (snd (with_effective self (name, schema))) format = get_policy self schema format"
  "get_policy (resolved_cab self) (snd (with_effective self (name, schema))) format_list = get_policy self schema format_list"
  by (simp_all add: get_policy_first_set resolved_cab_def with_effective_def effective_policies_def no_policies_def)

lemma with_effective_fields [simp]:
  "fst (with_effective self (name, schema)) = name"
  "dtype (snd (with_effective self (name, schema))) = dtype schema"
  "implicit (snd (with_effective self (name, schema))) = implicit schema"
  "required (snd (with_effective self (name, schema))) = required schema"
  "param_alias (snd (with_effective self (name, schema))) = param_alias schema"
  by (simp_all add: with_effective_def)

lemma format_value_resolved:
  "format_value (resolved_cab self) vd v (snd (with_effective self (name, schema))) = format_value self vd v schema"
  unfolding format_value_def get_policy_resolved ..

lemma form_up_resolved:
  "form_up (resolved_cab self) n (snd (with_effective self (name, schema))) opt fv = form_up self n schema opt fv"
  unfolding form_up_def get_policy_resolved ..

lemma stringify_argument_resolved:
  "stringify_argument (resolved_cab self) vd n v (snd (with_effective self (name, schema))) opt
     = stringify_argument self vd n v schema opt"
proof -
  have "form_up (resolved_cab self) n (snd (with_effective self (name, schema))) opt = form_up self n schema opt"
    by (rule ext) (rule form_up_resolved)
  then show ?thesis
    by (simp add: stringify_argument_def format_value_resolved)
qed

lemma skipped_resolved:
  "skipped (resolved_cab self) (snd (with_effective self (name, schema))) = skipped self schema"
  by (simp add: skipped_def get_policy_resolved)

lemma collect_positional_resolved:
  "collect_positional (resolved_cab self) st (with_effective self entry) = collect_positional self st entry"
proof -
  obtain name schema where e: "entry = (name, schema)" by (cases entry)
  obtain vd h t where s: "st = (vd, h, t)" by (cases st)
  have w: "with_effective self (name, schema) = (name, snd (with_effective self (name, schema)))"
    by (simp add: with_effective_def)
  show ?thesis
    unfolding e s
    by (subst w) (simp add: collect_positional_def get_policy_resolved skipped_resolved
        stringify_argument_resolved Let_def)
qed

lemma for_each_map:
  "(\<And>s x. body' s (g x) = body s x) \<Longrightarrow> for_each body' s (map g xs) = for_each body s xs"
  by (induction xs arbitrary: s) simp_all

lemma map_of_with_effective:
  "map_of (map (with_effective self) xs) name =
   map_option (\<lambda>schema. snd (with_effective self (name, schema))) (map_of xs name)"
  by (induction xs) (auto simp: with_effective_def)

lemma add_option_resolved:
  "add_option (resolved_cab self) vd args entry = add_option self vd args entry"
proof -
  obtain name v where e: "entry = (name, v)" by (cases entry)
  have io: "inputs_outputs (resolved_cab self) = map (with_effective self) (inputs_outputs self)"
    by (simp add: resolved_cab_def)
  show ?thesis
    unfolding e add_option_def
    by (cases "map_of (inputs_outputs self) name")
      (simp_all add: io map_of_with_effective get_policy_resolved skipped_resolved
        stringify_argument_resolved Let_def)
qed

text \<open>
  Claim C6. For each of the nine policy fields, \<open>get_policy\<close> yields the field of the
  parameter's policies when it is set and the field of the cab's policies otherwise;
  a value that is set is never combined with the other. The argument list depends on
  the two levels of policies through this choice only: it is the argument list of the
  cab whose parameters carry the effective policies and whose own policies are empty.
\<close>

theorem effective_policy_per_field:
  "get_policy self schema positional = first_set (positional (policies schema)) (positional (cab_policies self)) \<and>
   get_policy self schema positional_head = first_set (positional_head (policies schema)) (positional_head (cab_policies self)) \<and>
   get_policy self schema repeat = first_set (repeat (policies schema)) (repeat (cab_policies self)) \<and>
   get_policy self schema prefix = first_set (prefix (policies schema)) (prefix (cab_policies self)) \<and>
   get_policy self schema skip = first_set (skip (policies schema)) (skip (cab_policies self)) \<and>
   get_policy self schema skip_implicits = first_set (skip_implicits (policies schema)) (skip_implicits (cab_policies self)) \<and>
   get_policy self schema split = first_set (split (policies schema)) (split (cab_policies self)) \<and>
   get_policy self schema format = first_set (format (policies schema)) (format (cab_policies self)) \<and>
   get_policy self schema format_list = first_set (format_list (policies schema)) (format_list (cab_policies self)) \<and>
   build_argument_list self = build_argument_list (resolved_cab self)"
proof -
  have io: "inputs_outputs (resolved_cab self) = map (with_effective self) (inputs_outputs self)"
    and pa: "params (resolved_cab self) = params self"
    by (simp_all add: resolved_cab_def)
  have ao: "add_option (resolved_cab self) = add_option self"
    by (intro ext) (rule add_option_resolved)
  have "build_argument_list (resolved_cab self) = build_argument_list self"
    unfolding build_argument_list_def io pa ao
    by (simp add: for_each_map [of "collect_positional (resolved_cab self)" "with_effective self"
          "collect_positional self"] collect_positional_resolved)
  then show ?thesis
    by (simp add: get_policy_first_set)
qed


section \<open>Defaults\<close>


text \<open>
  A \<open>None\<close> for which there is no default at all stays in \<open>inputs\<close>, and so in the
  namespace \<open>self\<close> of the substitutions: a reference to it renders as \<open>None\<close>, where a
  reference to a missing parameter fails and leaves an \<open>Error\<close> marker.
\<close>

lemma explicit_none_is_visible:
  "validate_parameters plain_env ()
     [(''a'', PyNone), (''b'', PyStr ''{self.a}'')]
     [(''a'', str_parameter), (''b'', str_parameter)] (Some []) None default_flags =
     Inr ([(''b'', PyStr ''None'')], ()) \<and>
   validate_parameters plain_env ()
     [(''b'', PyStr ''{self.a}'')]
     [(''a'', str_parameter), (''b'', str_parameter)] (Some []) None default_flags =
     Inr ([(''b'', Error ''a'')], ())"
  by (simp add: validate_defs substitution_defs plain_env_defs)








section \<open>Required parameters\<close>


















lemma missing_required_message:
  "validate_parameters plain_env () [] [(''f'', str_parameter\<lparr>required := True\<rparr>)]
     None None default_flags =
   Inl (ParameterValidationError (''missing required parameters: '' @ quoted ''f''))"
  by (simp add: validate_defs join_quote_def py_in_def str_parameter_def)


section \<open>File parameters without a match\<close>

text \<open>
  Claim C8. In the loop over the files, a string \<open>p\<close> of a file type that is no YAML list
  and whose glob matches no path raises a \<open>ParameterValidationError\<close> when the parameter
  is required and \<open>check_exist\<close> is set. Otherwise the iteration ends with the empty
  string under the name (the empty list for the list types) and nothing else changed:
  no existence check is made and no directory is created.
\<close>

theorem no_files_found:
  assumes "map_of schemas name = Some schema" and "map_of dtypes name = Some t"
    and "t \<in> set [T_File, T_Directory, T_MS, T_List T_File, T_List T_Directory, T_List T_MS]"
    and "safe_load_list env p = None" and "expand_globs fl" and "glob env fs p = []"
  shows "check_files env fl schemas dtypes (inputs, fs) (name, PyStr p) =
           (if required schema \<and> check_exist fl
            then Inl (ParameterValidationError
                   (quoted name @ '': no files found for '' @ quoted p))
            else Inr (AList.update name
                        (if t \<in> set [T_File, T_Directory, T_MS] then PyStr [] else PyList [])
                        inputs, fs))"
  using assms
  by (auto simp: check_files_def store_files_def match_files_def is_Error_def Let_def)

theorem no_files_found_witness:
  "check_files plain_env default_flags
     [(''f'', str_parameter\<lparr>dtype := ''File'', required := True\<rparr>)] [(''f'', T_File)]
     ([(''f'', PyStr ''*.fits'')], ()) (''f'', PyStr ''*.fits'') =
     Inl (ParameterValidationError (quoted ''f'' @ '': no files found for '' @ quoted ''*.fits'')) \<and>
   check_files plain_env (default_flags\<lparr>check_exist := False\<rparr>)
     [(''f'', str_parameter\<lparr>dtype := ''File'', required := True\<rparr>)] [(''f'', T_File)]
     ([(''f'', PyStr ''*.fits'')], ()) (''f'', PyStr ''*.fits'') =
     Inr ([(''f'', PyStr [])], ())"
proof -
  have h: "map_of [(''f'', str_parameter\<lparr>dtype := ''File'', required := True\<rparr>)] ''f'' =
             Some (str_parameter\<lparr>dtype := ''File'', required := True\<rparr>)"
    "map_of [(''f'', T_File)] ''f'' = Some T_File"
    "T_File \<in> set [T_File, T_Directory, T_MS, T_List T_File, T_List T_Directory, T_List T_MS]"
    "safe_load_list plain_env ''*.fits'' = None"
    "expand_globs default_flags" "expand_globs (default_flags\<lparr>check_exist := False\<rparr>)"
    "glob plain_env () ''*.fits'' = []"
    by (simp_all add: plain_env_def default_flags_def)
  from no_files_found [OF h(1) h(2) h(3) h(4) h(5) h(7), of "[(''f'', PyStr ''*.fits'')]"]
    no_files_found [OF h(1) h(2) h(3) h(4) h(6) h(7), of "[(''f'', PyStr ''*.fits'')]"]
  show ?thesis
    by (simp add: default_flags_def str_parameter_def)
qed

text \<open>The same through \<open>validate_parameters\<close>, with and without the check of existence.\<close>

lemma no_files_found_validate:
  "validate_parameters plain_env () [(''f'', PyStr ''*.fits'')]
     [(''f'', str_parameter\<lparr>dtype := ''File'', required := True\<rparr>)] None None default_flags =
     Inl (ParameterValidationError
       (quoted ''f'' @ '': no files found for '' @ quoted ''*.fits'')) \<and>
   validate_parameters plain_env () [(''f'', PyStr ''*.fits'')]
     [(''f'', str_parameter\<lparr>dtype := ''File'', required := True\<rparr>)] None None
     (default_flags\<lparr>check_exist := False\<rparr>) = Inr ([(''f'', PyStr [])], ())"
  by (simp add: validate_defs plain_env_defs set_aside_def py_in_def Let_def)


section \<open>Error markers\<close>

text \<open>
  Claim C10, as stated, fails: the parameter \<open>a\<close> holds \<open>{x}\<close>, the namespace is empty,
  so the substitution fails and leaves the marker \<open>Error("'x'")\<close>. The schema declares
  the choices \<open>["'x'"]\<close>. The marker equals that choice, the choice check passes, and
  the marker is returned to the caller.
\<close>

theorem error_in_choices_counterexample:
  "validate_parameters plain_env ()
     [(''a'', PyStr ''{x}'')]
     [(''a'', str_parameter\<lparr>choices := [PyStr (quoted ''x'')]\<rparr>)] (Some []) None default_flags =
   Inr ([(''a'', Error (quoted ''x''))], ())"
  by (simp add: validate_defs substitution_defs plain_env_defs)

text \<open>
  Claim C10, amended. An \<open>Error\<close> value is left alone by the substitution passes and by
  the loop over the files. It is passed to the pydantic dataclass and to the choice
  check: when the dataclass accepts it as it is, a parameter holding it whose schema
  declares choices fails the choice check, unless the text of the marker equals one of
  the choices; then, as with no choices, the marker is returned unchanged.
\<close>

theorem error_marker_meets_choice_check:
  "substitute subst1 st (name, Error e) = Inr st \<and>
   check_files env fl schemas dtypes (ins, fs) (name, Error e) = Inr (ins, fs) \<and>
   (eval_dtype env (dtype schema) = Some t \<and> make_pcls env [(name, t)] = Inr pcls \<and>
    pcls [(name, Error e)] = Validated [(name, Error e)] \<and> \<not> create_dirs fl \<longrightarrow>
      validate_resolved env fl fs [(name, schema)] ([(name, Error e)], []) =
        (if choices schema \<noteq> [] \<and> \<not> py_in_list (Error e) (choices schema)
         then Inl (ParameterValidationError (name @ '': invalid value '' @ quoted e))
         else Inr ([(name, Error e)], fs)))"
proof (intro conjI impI)
  show "substitute subst1 st (name, Error e) = Inr st"
    by (simp add: substitute_def)
  show "check_files env fl schemas dtypes (ins, fs) (name, Error e) = Inr (ins, fs)"
    by (simp add: check_files_def is_Error_def split: option.split)
next
  assume "eval_dtype env (dtype schema) = Some t \<and> make_pcls env [(name, t)] = Inr pcls \<and>
    pcls [(name, Error e)] = Validated [(name, Error e)] \<and> \<not> create_dirs fl"
  then show "validate_resolved env fl fs [(name, schema)] ([(name, Error e)], []) =
        (if choices schema \<noteq> [] \<and> \<not> py_in_list (Error e) (choices schema)
         then Inl (ParameterValidationError (name @ '': invalid value '' @ quoted e))
         else Inr ([(name, Error e)], fs))"
    by (simp add: validate_resolved_def check_required_args_def missing_required_def
        add_field_def check_files_def store_files_def is_Error_def validate_record_def check_choice_def
        py_get_def py_in_def Let_def)
qed

theorem error_marker_meets_choice_check_witness:
  "eval_dtype plain_env (dtype (str_parameter\<lparr>choices := [PyStr ''y'']\<rparr>)) = Some T_str \<and>
   (\<exists>pcls. make_pcls plain_env [(''a'', T_str)] = Inr pcls \<and>
      pcls [(''a'', Error ''ERR'')] = Validated [(''a'', Error ''ERR'')]) \<and>
   \<not> create_dirs default_flags \<and>
   validate_resolved plain_env default_flags ()
     [(''a'', str_parameter\<lparr>choices := [PyStr ''y'']\<rparr>)] ([(''a'', Error ''ERR'')], []) =
     Inl (ParameterValidationError (''a: invalid value '' @ quoted ''ERR''))"
proof -
  obtain pcls where p: "make_pcls plain_env [(''a'', T_str)] = Inr pcls"
    and v: "pcls [(''a'', Error ''ERR'')] = Validated [(''a'', Error ''ERR'')]"
    by (simp add: plain_env_defs)
  have h: "eval_dtype plain_env (dtype (str_parameter\<lparr>choices := [PyStr ''y'']\<rparr>)) = Some T_str"
    "\<not> create_dirs default_flags"
    by (simp_all add: plain_env_defs default_flags_def)
  from error_marker_meets_choice_check
    [where env = plain_env and schema = "str_parameter\<lparr>choices := [PyStr ''y'']\<rparr>"
       and t = T_str and name = "''a''" and pcls = pcls and e = "''ERR''"
       and fl = default_flags and fs = "()"] p v h
  show ?thesis
    by (auto simp: py_in_list_def str_parameter_def)
qed


section \<open>Parameters that refer to each other\<close>

text \<open>
  Claim C2, as stated, fails: with \<open>a = "{b}"\<close>, \<open>b = "{a}"\<close> and the empty namespace,
  \<open>{b}\<close> and \<open>{a}\<close> name keyword arguments that do not exist (the parameters are
  reached through \<open>self\<close>). The first pass leaves the markers \<open>Error("'b'")\<close> and
  \<open>Error("'a'")\<close>, which the second pass skips; validation returns them and raises
  nothing.
\<close>

theorem mutual_reference_counterexample:
  "validate_parameters plain_env ()
     [(''a'', PyStr ''{b}''), (''b'', PyStr ''{a}'')]
     [(''a'', str_parameter), (''b'', str_parameter)] (Some []) None default_flags =
   Inr ([(''a'', Error (quoted ''b'')), (''b'', Error (quoted ''a''))], ())"
  by (simp add: validate_defs substitution_defs plain_env_defs)

lemma substitution_loop_bound:
  "substitution_loop n i subst1 st = Inr (j, st') \<Longrightarrow> i \<le> j \<and> j < i + n"
proof (induction n arbitrary: i st)
  case 0
  then show ?case by simp
next
  case (Suc n)
  then show ?case
    by (cases "substitution_pass subst1 st") (fastforce split: if_splits)+
qed

text \<open>
  Claim C2, amended. The substitutions never run more than 10 passes: a result comes
  from a pass of index below 10. For \<open>a = "{b}"\<close>, \<open>b = "{a}"\<close> and a namespace that
  defines neither \<open>a\<close> nor \<open>b\<close>, both values are \<open>Error\<close> markers after the first pass
  and the second pass finds nothing changed. The cyclic-substitution error is raised
  when each of the 10 passes changes a value, as with the namespace that maps \<open>a\<close> to
  \<open>{b}\<close> and \<open>b\<close> to \<open>{a}\<close>, under which the two values swap in every pass.
\<close>

theorem substitution_stops:
  "(do_substitutions subst ins = Inr (i, st) \<longrightarrow> i < 10) \<and>
   (SubstitutionNamespace subst = Inr ns \<and> map_of ns ''a'' = None \<and> map_of ns ''b'' = None \<longrightarrow>
      do_substitutions subst [(''a'', PyStr ''{b}''), (''b'', PyStr ''{a}'')] =
        Inr (1, \<lparr>st_inputs = [(''a'', Error (quoted ''b'')), (''b'', Error (quoted ''a''))],
                 st_subst1_self = [(''a'', PyStr ''ERR''), (''b'', PyStr ''ERR'')],
                 st_changed = False\<rparr>)) \<and>
   do_substitutions [(''a'', PyStr ''{b}''), (''b'', PyStr ''{a}'')]
      [(''a'', PyStr ''{b}''), (''b'', PyStr ''{a}'')] =
     Inl (ParameterValidationError recursion_limit_message)"
proof (intro conjI impI)
  assume "do_substitutions subst ins = Inr (i, st)"
  then show "i < 10"
    by (cases "SubstitutionNamespace subst"; cases "SubstitutionNamespace ins")
      (auto simp: do_substitutions_def dest: substitution_loop_bound)
next
  assume "SubstitutionNamespace subst = Inr ns \<and> map_of ns ''a'' = None \<and> map_of ns ''b'' = None"
  then show "do_substitutions subst [(''a'', PyStr ''{b}''), (''b'', PyStr ''{a}'')] =
        Inr (1, \<lparr>st_inputs = [(''a'', Error (quoted ''b'')), (''b'', Error (quoted ''a''))],
                 st_subst1_self = [(''a'', PyStr ''ERR''), (''b'', PyStr ''ERR'')],
                 st_changed = False\<rparr>)"
    by (simp add: substitution_defs namespace_of_strings quoted_def
        del: SubstitutionNamespace.simps)
next
  show "do_substitutions [(''a'', PyStr ''{b}''), (''b'', PyStr ''{a}'')]
      [(''a'', PyStr ''{b}''), (''b'', PyStr ''{a}'')] =
     Inl (ParameterValidationError recursion_limit_message)"
    by (simp add: substitution_defs namespace_of_strings del: SubstitutionNamespace.simps)
qed

text \<open>
  What the same loop does when the two parameters are addressed through \<open>self\<close>: the
  text that \<open>format\<close> inserts is not expanded again, and both values come to rest at
  \<open>{self.a}\<close> in the second pass.
\<close>

lemma references_through_self_settle:
  "SubstitutionNamespace subst = Inr ns \<Longrightarrow>
   do_substitutions subst [(''a'', PyStr ''{self.b}''), (''b'', PyStr ''{self.a}'')] =
     Inr (1, \<lparr>st_inputs = [(''a'', PyStr ''{self.a}''), (''b'', PyStr ''{self.a}'')],
              st_subst1_self = [(''a'', PyStr ''{self.a}''), (''b'', PyStr ''{self.a}'')],
              st_changed = False\<rparr>)"
  by (simp add: substitution_defs namespace_of_strings del: SubstitutionNamespace.simps)

theorem substitution_stops_witness:
  "SubstitutionNamespace [] = Inr [] \<and> map_of ([] :: pydict) ''a'' = None \<and>
   map_of ([] :: pydict) ''b'' = None \<and>
   do_substitutions [] [(''a'', PyStr ''{b}''), (''b'', PyStr ''{a}'')] =
     Inr (1, \<lparr>st_inputs = [(''a'', Error (quoted ''b'')), (''b'', Error (quoted ''a''))],
              st_subst1_self = [(''a'', PyStr ''ERR''), (''b'', PyStr ''ERR'')],
              st_changed = False\<rparr>) \<and>
   (1 :: nat) < 10"
proof -
  have n: "SubstitutionNamespace [] = Inr []" "map_of ([] :: pydict) ''a'' = None"
    "map_of ([] :: pydict) ''b'' = None"
    by (simp_all add: py_in_def)
  note s = substitution_stops [where subst = "[]" and ns = "[]"
      and ins = "[(''a'', PyStr ''{b}''), (''b'', PyStr ''{a}'')]" and i = 1
      and st = "\<lparr>st_inputs = [(''a'', Error (quoted ''b'')), (''b'', Error (quoted ''a''))],
              st_subst1_self = [(''a'', PyStr ''ERR''), (''b'', PyStr ''ERR'')],
              st_changed = False\<rparr>"]
  from s n show ?thesis by simp
qed


section \<open>A reference to a literal\<close>

text \<open>
  Claim C3, as stated, fails: with \<open>a = "{b}"\<close>, \<open>b = "literal"\<close> and the empty
  namespace, \<open>{b}\<close> names a keyword argument that does not exist, and \<open>a\<close> comes back
  as the marker \<open>Error("'b'")\<close>.
\<close>

theorem reference_without_self_counterexample:
  "validate_parameters plain_env ()
     [(''a'', PyStr ''{b}''), (''b'', PyStr ''literal'')]
     [(''a'', str_parameter), (''b'', str_parameter)] (Some []) None default_flags =
   Inr ([(''a'', Error (quoted ''b'')), (''b'', PyStr ''literal'')], ())"
  by (simp add: validate_defs substitution_defs plain_env_defs)

text \<open>
  Claim C3, amended. With the parameter addressed through \<open>self\<close>, \<open>a = "{self.b}"\<close> and
  \<open>b = "literal"\<close>, and any namespace (one that \<open>SubstitutionNamespace\<close> accepts), the
  substitutions reach \<open>a = "literal"\<close>, \<open>b = "literal"\<close> and stop in the second pass
  (index 1); \<open>validate_parameters\<close> returns both as plain strings.
\<close>

theorem fixed_point_through_self:
  assumes "SubstitutionNamespace subst = Inr ns"
  shows "do_substitutions subst [(''a'', PyStr ''{self.b}''), (''b'', PyStr ''literal'')] =
           Inr (1, \<lparr>st_inputs = [(''a'', PyStr ''literal''), (''b'', PyStr ''literal'')],
                    st_subst1_self = [(''a'', PyStr ''literal''), (''b'', PyStr ''literal'')],
                    st_changed = False\<rparr>) \<and>
         validate_parameters plain_env ()
           [(''a'', PyStr ''{self.b}''), (''b'', PyStr ''literal'')]
           [(''a'', str_parameter), (''b'', str_parameter)] (Some subst) None default_flags =
           Inr ([(''a'', PyStr ''literal''), (''b'', PyStr ''literal'')], ())"
proof -
  have loop: "do_substitutions subst [(''a'', PyStr ''{self.b}''), (''b'', PyStr ''literal'')] =
           Inr (1, \<lparr>st_inputs = [(''a'', PyStr ''literal''), (''b'', PyStr ''literal'')],
                    st_subst1_self = [(''a'', PyStr ''literal''), (''b'', PyStr ''literal'')],
                    st_changed = False\<rparr>)"
    using assms
    by (simp add: substitution_defs namespace_of_strings del: SubstitutionNamespace.simps)
  have "validate_parameters plain_env ()
           [(''a'', PyStr ''{self.b}''), (''b'', PyStr ''literal'')]
           [(''a'', str_parameter), (''b'', str_parameter)] (Some subst) None default_flags =
           Inr ([(''a'', PyStr ''literal''), (''b'', PyStr ''literal'')], ())"
    by (simp add: validate_defs plain_env_defs py_in_def loop Let_def
        del: SubstitutionNamespace.simps)
  with loop show ?thesis by blast
qed

theorem fixed_point_through_self_witness:
  "SubstitutionNamespace [(''x'', PyInt 1)] = Inr [(''x'', PyInt 1)] \<and>
   validate_parameters plain_env ()
     [(''a'', PyStr ''{self.b}''), (''b'', PyStr ''literal'')]
     [(''a'', str_parameter), (''b'', str_parameter)] (Some [(''x'', PyInt 1)]) None
     default_flags =
     Inr ([(''a'', PyStr ''literal''), (''b'', PyStr ''literal'')], ())"
proof -
  have n: "SubstitutionNamespace [(''x'', PyInt 1)] = Inr [(''x'', PyInt 1)]"
    by (simp add: py_in_def)
  from fixed_point_through_self [OF n] n show ?thesis by simp
qed


section \<open>The verdict of a run\<close>

lemma apply_action_status:
  "status st = Some v \<Longrightarrow> status (apply_action st a) = Some v"
  by (cases a) simp_all

lemma foldl_apply_action_status:
  "status st = Some v \<Longrightarrow> status (foldl apply_action st as) = Some v"
  by (induction as arbitrary: st) (simp_all add: apply_action_status)

lemma apply_wrangler_status:
  "status st = Some v \<Longrightarrow> status (apply_wrangler output st w) = Some v"
  by (cases w) (simp add: foldl_apply_action_status split: option.split)

lemma foldl_apply_wrangler_status:
  "status st = Some v \<Longrightarrow> status (foldl (apply_wrangler output) st ws) = Some v"
  by (induction ws arbitrary: st) (simp_all add: apply_wrangler_status)

lemma apply_output_wranglers_status:
  "runtime_status cab = Some v \<Longrightarrow>
   runtime_status (snd (apply_output_wranglers cab output sev)) = Some v"
  by (simp add: apply_output_wranglers_def wrangle_def Let_def foldl_apply_wrangler_status)

text \<open>
  Claim C5. The verdict is first-wins: once \<open>runtime_status\<close> holds success or failure,
  no sequence of \<open>apply_output_wranglers\<close> calls changes it, whatever rules the lines
  match; \<open>reset_runtime_status\<close> alone brings it back to unknown.
\<close>

theorem runtime_status_first_wins:
  "(runtime_status cab = Some v \<longrightarrow> runtime_status (feed_lines cab ls) = Some v) \<and>
   runtime_status (reset_runtime_status cab) = None"
proof
  show "runtime_status cab = Some v \<longrightarrow> runtime_status (feed_lines cab ls) = Some v"
  proof (induction ls arbitrary: cab)
    case Nil
    show ?case by simp
  next
    case (Cons l ls)
    obtain line sev where l: "l = (line, sev)" by (cases l)
    show ?case
      using Cons.IH [of "snd (apply_output_wranglers cab line sev)"]
        apply_output_wranglers_status [of cab v line sev]
      by (simp add: l)
  qed
  show "runtime_status (reset_runtime_status cab) = None"
    by (simp add: reset_runtime_status_def)
qed

text \<open>
  A cab with a \<open>DECLARE_FAILURE\<close> rule on lines containing \<open>E\<close> and a \<open>DECLARE_SUCCESS\<close>
  rule on lines containing \<open>S\<close>: the line \<open>E\<close> sets the verdict to failure, and the
  later line \<open>S\<close> leaves it there.
\<close>

theorem runtime_status_first_wins_witness:
  "runtime_status
     (snd (apply_output_wranglers
        \<lparr>wranglers = [(char_regex CHR ''E'', None, [ACTION_DECLARE_FAILURE]),
                      (char_regex CHR ''S'', None, [ACTION_DECLARE_SUCCESS])],
         runtime_status = None\<rparr> ''E'' 20)) = Some False \<and>
   runtime_status
     (feed_lines
        (snd (apply_output_wranglers
           \<lparr>wranglers = [(char_regex CHR ''E'', None, [ACTION_DECLARE_FAILURE]),
                         (char_regex CHR ''S'', None, [ACTION_DECLARE_SUCCESS])],
            runtime_status = None\<rparr> ''E'' 20))
        [(''S'', 20)]) = Some False"
proof -
  let ?cab = "snd (apply_output_wranglers
        \<lparr>wranglers = [(char_regex CHR ''E'', None, [ACTION_DECLARE_FAILURE]),
                      (char_regex CHR ''S'', None, [ACTION_DECLARE_SUCCESS])],
         runtime_status = None\<rparr> ''E'' 20)"
  have first: "runtime_status ?cab = Some False"
    by (simp add: apply_output_wranglers_def wrangle_def char_regex_def Let_def)
  from runtime_status_first_wins [of ?cab False "[(''S'', 20)]"] first
  show ?thesis by blast
qed

section \<open>Several rules firing on one line\<close>

lemma wrangle_snoc:
  "wrangle (cab\<lparr>wranglers := ws @ [w]\<rparr>) output sev =
   apply_wrangler output (wrangle (cab\<lparr>wranglers := ws\<rparr>) output sev) w"
  by (simp add: wrangle_def)

text \<open>
  Claim C4, as the specification states it, fails: with a rule rewriting \<open>a\<close> to \<open>b\<close>
  followed by a rule rewriting \<open>b\<close> to \<open>c\<close>, the line \<open>a\<close> comes out as \<open>b\<close>. The
  second rule is matched against the original line \<open>a\<close> and does not fire; under the
  cumulative reading it would see \<open>b\<close> and produce \<open>c\<close>.
\<close>

theorem wranglers_not_cumulative_counterexample:
  "fst (apply_output_wranglers
          \<lparr>wranglers = [(char_regex CHR ''a'', Some ''b'', []),
                        (char_regex CHR ''b'', Some ''c'', [])],
           runtime_status = None\<rparr> ''a'' 20) = (Some ''b'', 20) \<and>
   fst (apply_output_wranglers_cumulative
          \<lparr>wranglers = [(char_regex CHR ''a'', Some ''b'', []),
                        (char_regex CHR ''b'', Some ''c'', [])],
           runtime_status = None\<rparr> ''a'' 20) = (Some ''c'', 20)"
  by (simp add: apply_output_wranglers_def apply_output_wranglers_cumulative_def
      wrangle_def char_regex_def Let_def)

text \<open>
  Claim C4, amended. Every rule is matched against the original line of the call: a
  rule whose pattern does not match the original line changes nothing, whatever the
  earlier rules made of the line. A firing rule with a replacement rewrites the original
  line and puts the result in place of the line built so far, so that after a last
  firing rule with a replacement (and no actions) the returned line is the rewriting of
  the original line by that rule alone, unless the line is suppressed.
\<close>

theorem wranglers_see_original_line:
  "(rx_search rx line \<longrightarrow>
      fst (fst (apply_output_wranglers (cab\<lparr>wranglers := ws @ [(rx, Some r, [])]\<rparr>) line sev))
        \<in> {None, Some (rx_sub rx r line)}) \<and>
   (\<not> rx_search rx' line \<longrightarrow>
      fst (apply_output_wranglers (cab\<lparr>wranglers := ws @ [(rx', replace, actions)]\<rparr>) line sev)
        = fst (apply_output_wranglers (cab\<lparr>wranglers := ws\<rparr>) line sev))"
  by (simp add: apply_output_wranglers_def wrangle_snoc Let_def)

theorem wranglers_see_original_line_witness:
  "rx_search (char_regex CHR ''a'') ''a'' \<and>
   \<not> rx_search (char_regex CHR ''b'') ''a'' \<and>
   fst (fst (apply_output_wranglers
     \<lparr>wranglers = [(char_regex CHR ''a'', Some ''b'', [])] @ [(char_regex CHR ''a'', Some ''c'', [])],
      runtime_status = None\<rparr> ''a'' 20)) \<in> {None, Some ''c''} \<and>
   fst (apply_output_wranglers
     \<lparr>wranglers = [(char_regex CHR ''a'', Some ''b'', [])] @ [(char_regex CHR ''b'', Some ''c'', [])],
      runtime_status = None\<rparr> ''a'' 20)
     = fst (apply_output_wranglers
     \<lparr>wranglers = [(char_regex CHR ''a'', Some ''b'', [])], runtime_status = None\<rparr> ''a'' 20)"
proof -
  have s: "rx_search (char_regex CHR ''a'') ''a''" "\<not> rx_search (char_regex CHR ''b'') ''a''"
    "rx_sub (char_regex CHR ''a'') ''c'' ''a'' = ''c''"
    by (simp_all add: char_regex_def)
  from wranglers_see_original_line
    [where rx = "char_regex CHR ''a''" and line = "''a''"
       and cab = "\<lparr>wranglers = [], runtime_status = None\<rparr>"
       and ws = "[(char_regex CHR ''a'', Some ''b'', [])]" and r = "''c''" and sev = 20
       and rx' = "char_regex CHR ''b''" and replace = "Some ''c''" and actions = "[]"] s
  show ?thesis by simp
qed

end
